theory Spec2Isabelle
  imports Complex_Main "HOL-Library.Product_Lexorder"
begin

section \<open>Values shared by the handlers\<close>

text \<open>
  The handlers are AWS Lambda functions written in Python. Every exception they let
  escape is a value of \<open>error\<close>; a handler returns \<open>error + result\<close>.
\<close>

datatype error =
    KeyError | IndexError | UnboundLocalError | ValueError
  | S3ReadError | AthenaError | S3WriteError | EmptyDataFrame | KinesisError

text \<open>
  The values that occur in the dictionaries the handlers return. \<open>PyFloat n\<close> is the
  float \<open>n.0\<close>: the only floats returned are results of \<open>round(x, 0)\<close>.
\<close>

datatype pyval = PyStr string | PyInt int | PyFloat int

text \<open>A returned dictionary literal, in the order its keys are written.\<close>

type_synonym pydict = "(string \<times> pyval) list"

text \<open>
  \<open>round((end_time - start_time).total_seconds(), 0)\<close>, from the elapsed time in
  microseconds. Python rounds a float to the nearest whole number, a tie to the even one.
  The definition rounds the exact number of seconds; the code rounds its double, which
  gives the same result for every elapsed time below \<open>2 ^ 33\<close> seconds.
\<close>

definition round_seconds :: "int \<Rightarrow> int" where
  "round_seconds us =
     (let q = us div 1000000; r = us mod 1000000
      in if r < 500000 then q
         else if r > 500000 then q + 1
         else if even q then q else q + 1)"

text \<open>A calendar date (year, month, day), and a timestamp: a date with the microsecond of the day.\<close>

type_synonym civil_date = "int \<times> nat \<times> nat"

type_synonym timestamp = "civil_date \<times> nat"

definition year :: "civil_date \<Rightarrow> int" where
  "year d = fst d"

text \<open>\<open>f's3://{bucket}/{key}'\<close>\<close>

definition s3_path :: "string \<Rightarrow> string \<Rightarrow> string" where
  "s3_path bucket key = ''s3://'' @ bucket @ ''/'' @ key"

text \<open>
  \<open>wr.s3.to_parquet\<close> as in awswrangler 2: it refuses an empty frame
  (\<open>EmptyDataFrame\<close>) before it writes; any other failure is the world's. (awswrangler 3
  returns without writing instead; the repository pins no version. The daily-batch handler
  never passes an empty frame, the streaming handler does when cleaning drops every row.)
\<close>

definition s3_to_parquet :: "error option \<Rightarrow> 'a list \<Rightarrow> error option" where
  "s3_to_parquet failure df = (if df = [] then Some EmptyDataFrame else failure)"

section \<open>The daily-batch processor: \<open>process_batch_files_lambda\<close>\<close>

subsection \<open>Data\<close>

text \<open>
  A cell of the \<open>close_price\<close> column as \<open>read_csv\<close> delivers it, with what
  \<open>pd.to_numeric(errors='coerce')\<close> followed by \<open>astype('int64')\<close> makes of it:
  \<open>Numeric n\<close> is a cell that coerces to a finite number whose 64-bit integer value is
  \<open>n\<close>, \<open>NotNumeric s\<close> a cell (the text \<open>s\<close>, or a missing value) that coerces to NaN.
  A cell that coerces to an infinity has no value in this type: it is not NaN, so it
  survives \<open>dropna\<close>, and \<open>astype('int64')\<close> raises on it; the model covers the files
  without such a cell, for which the cleaning cannot raise.
  Likewise a cell of the \<open>date\<close> column under \<open>pd.to_datetime(errors='coerce').dt.date\<close>.
\<close>

datatype price_cell = Numeric int | NotNumeric string

datatype date_cell = Parsable civil_date | Unparsable string

text \<open>
  A row of the incoming data frame \<open>df_new_file\<close>; the types of the \<open>date\<close> and
  \<open>close_price\<close> columns change as the cleaning proceeds.
\<close>

record ('d, 'p) row =
  company :: string
  date :: 'd
  close_price :: 'p

text \<open>
  A row of the Athena table \<open>price_by_date\<close>. Athena columns are nullable; the handler
  itself tests \<open>close_price\<close> for null after the join, so that column is an option.
\<close>

record price_by_date =
  pbd_company :: string
  pbd_close_date :: civil_date
  pbd_close_price :: "int option"
  pbd_p_year :: int

subsection \<open>Cleaning (lines 131 to 161)\<close>

definition to_numeric :: "price_cell \<Rightarrow> int option" where
  "to_numeric c = (case c of Numeric n \<Rightarrow> Some n | NotNumeric s \<Rightarrow> None)"

definition to_datetime_date :: "date_cell \<Rightarrow> civil_date option" where
  "to_datetime_date c = (case c of Parsable d \<Rightarrow> Some d | Unparsable s \<Rightarrow> None)"

text \<open>\<open>column.isna().sum()\<close>\<close>

definition isna_sum :: "'a option list \<Rightarrow> nat" where
  "isna_sum col = length (filter (\<lambda>v. v = None) col)"

text \<open>
  Lines 131 to 139: coerce the price column, count its NaN, drop those rows, cast to int64.
  Returns the count and the frame.
\<close>

definition clean_close_price ::
  "(date_cell, price_cell) row list \<Rightarrow> nat \<times> (date_cell, int) row list" where
  "clean_close_price df =
     (let df1 = map (\<lambda>r. \<lparr>company = company r, date = date r,
                           close_price = to_numeric (close_price r)\<rparr>) df;
          bad_records_count = isna_sum (map close_price df1);
          df2 = filter (\<lambda>r. close_price r \<noteq> None) df1;
          df3 = map (\<lambda>r. \<lparr>company = company r, date = date r,
                           close_price = (case close_price r of Some n \<Rightarrow> n | None \<Rightarrow> 0)\<rparr>) df2
      in (bad_records_count, df3))"

text \<open>
  Lines 148 to 153: parse the date column of the frame that is left, add its NaT count to
  the running count, drop those rows.
\<close>

definition clean_date ::
  "nat \<Rightarrow> (date_cell, int) row list \<Rightarrow> nat \<times> (civil_date, int) row list" where
  "clean_date bad_records_count df =
     (let df1 = map (\<lambda>r. \<lparr>company = company r, date = to_datetime_date (date r),
                           close_price = close_price r\<rparr>) df;
          bad_records_count' = bad_records_count + isna_sum (map date df1);
          df2 = filter (\<lambda>r. date r \<noteq> None) df1;
          df3 = map (\<lambda>r. \<lparr>company = company r,
                           date = (case date r of Some d \<Rightarrow> d | None \<Rightarrow> (0, 0, 0)),
                           close_price = close_price r\<rparr>) df2
      in (bad_records_count', df3))"

definition clean_batch ::
  "(date_cell, price_cell) row list \<Rightarrow> nat \<times> (civil_date, int) row list" where
  "clean_batch df =
     (let (bad_records_count, df1) = clean_close_price df
      in clean_date bad_records_count df1)"

subsection \<open>The delta (lines 170 to 172)\<close>

text \<open>
  \<open>pd.merge(df_new_file, df_athena, how='left', left_on=['company', 'date'],
  right_on=['company', 'close_date'])\<close>: every left row, in order, once for each right
  row with the same key, or once with an all-null right side when there is none.
\<close>

definition matches :: "(civil_date, int) row \<Rightarrow> price_by_date \<Rightarrow> bool" where
  "matches l r \<longleftrightarrow> pbd_company r = company l \<and> pbd_close_date r = date l"

definition merge_left ::
  "(civil_date, int) row list \<Rightarrow> price_by_date list
     \<Rightarrow> ((civil_date, int) row \<times> price_by_date option) list" where
  "merge_left df_new_file df_athena =
     concat (map (\<lambda>l. case filter (matches l) df_athena of
                         [] \<Rightarrow> [(l, None)]
                       | m # ms \<Rightarrow> map (\<lambda>r. (l, Some r)) (m # ms)) df_new_file)"

text \<open>The column \<open>close_price_y\<close> of the merged frame: the right side's price.\<close>

definition close_price_y :: "(civil_date, int) row \<times> price_by_date option \<Rightarrow> int option" where
  "close_price_y m = (case snd m of None \<Rightarrow> None | Some r \<Rightarrow> pbd_close_price r)"

text \<open>
  \<open>merged_df[merged_df['close_price_y'].isnull()][['company', 'date', 'close_price_x']]\<close>:
  the left columns of the merged rows whose right-side price is null.
\<close>

definition df_new_records ::
  "(civil_date, int) row list \<Rightarrow> price_by_date list \<Rightarrow> (civil_date, int) row list" where
  "df_new_records df_new_file df_athena =
     map fst (filter (\<lambda>m. close_price_y m = None) (merge_left df_new_file df_athena))"

text \<open>Lines 183 to 187: rename the columns and add the partition column.\<close>

definition to_price_by_date :: "(civil_date, int) row \<Rightarrow> price_by_date" where
  "to_price_by_date r =
     \<lparr>pbd_company = company r, pbd_close_date = date r,
      pbd_close_price = Some (close_price r), pbd_p_year = year (date r)\<rparr>"

subsection \<open>The handler\<close>

text \<open>
  What the handler reads from outside: the event's \<open>Records\<close> (bucket name and object key
  of each), the environment, the CSV file behind a path, the Athena table, whether the
  Parquet write fails, and the time that passes between the first and the last clock
  reading (in microseconds).
\<close>

record batch_world =
  event_records :: "(string \<times> string) list"
  environ :: "string \<rightharpoonup> string"
  s3_read_csv :: "string \<Rightarrow> error + (date_cell, price_cell) row list"
  athena_price_by_date :: "error + price_by_date list"
  s3_to_parquet_error :: "error option"
  elapsed_us :: int

text \<open>What an invocation that returns has done: the dictionary returned and the writes made.\<close>

record batch_outcome =
  response :: pydict
  writes :: "(string \<times> price_by_date list) list"

definition summary :: "string \<Rightarrow> int \<Rightarrow> int \<Rightarrow> pydict" where
  "summary status n us =
     [(''status'', PyStr status), (''records_appended'', PyInt n),
      (''duration_seconds'', PyFloat (round_seconds us))]"

definition process_batch_files_lambda :: "batch_world \<Rightarrow> error + batch_outcome" where
  "process_batch_files_lambda w =
     (case event_records w of
        [] \<Rightarrow> Inl IndexError
      | (source_bucket, key) # rest \<Rightarrow>
     (let path = s3_path source_bucket key in
      case environ w ''dest_bucket_path'' of
        None \<Rightarrow> Inl KeyError
      | Some dest_bucket_path \<Rightarrow>
     (case s3_read_csv w path of
        Inl e \<Rightarrow> Inl e
      | Inr df_new_file \<Rightarrow>
     (let df_new_file_records_count = int (length df_new_file) in
      if length df_new_file = 0
      then Inr \<lparr>response = summary ''success with warning'' 0 (elapsed_us w), writes = []\<rparr>
      else
     (case athena_price_by_date w of
        Inl e \<Rightarrow> Inl e
      | Inr df_athena \<Rightarrow>
     (let (bad_records_count, df_clean) = clean_batch df_new_file;
          new_records = df_new_records df_clean df_athena;
          df_new_records_count = int (length new_records) in
      if df_new_records_count > 0
      then
        (let appended = map to_price_by_date new_records in
         case s3_to_parquet (s3_to_parquet_error w) appended of
           Some e \<Rightarrow> Inl e
         | None \<Rightarrow>
        (let records_difference = df_new_file_records_count - df_new_records_count in
         if records_difference = 0
         then Inr \<lparr>response = summary ''success'' df_new_records_count (elapsed_us w),
                   writes = [(dest_bucket_path, appended)]\<rparr>
         else Inr \<lparr>response = summary ''success with warning'' df_new_records_count (elapsed_us w),
                   writes = [(dest_bucket_path, appended)]\<rparr>))
      else Inr \<lparr>response = summary ''success with warning'' 0 (elapsed_us w),
                writes = []\<rparr>))))))"

section \<open>The streaming processor: \<open>process_stock_stream_data\<close>\<close>

subsection \<open>Data\<close>

text \<open>
  A cell of the \<open>produced_at\<close> column with what \<open>pd.to_datetime(errors='coerce')\<close>
  makes of it; the \<open>price\<close> column has the cells of the batch's \<open>close_price\<close>.
\<close>

datatype ts_cell = ParsableTs timestamp | UnparsableTs string

text \<open>A row of the frame \<open>df\<close> read from the JSON lines.\<close>

record ('t, 'p) tick =
  symbol :: string
  price :: 'p
  produced_at :: 't

text \<open>
  A row of the table \<open>stream_prices_history\<close>: the cleaned frame with its two added
  columns. The handler appends rows without nulls only, so the columns are not options.
\<close>

record stream_prices_history =
  sph_symbol :: string
  sph_price :: int
  sph_produced_at :: timestamp
  sph_etl_loading_ts :: timestamp
  sph_p_year :: int

text \<open>A row of the latest-prices destination: the query's columns and the load timestamp.\<close>

record latest_prices =
  lp_symbol :: string
  lp_price :: int
  lp_produced_at :: timestamp
  lp_etl_loading_ts :: timestamp

subsection \<open>Cleaning (lines 173 to 198)\<close>

definition to_datetime :: "ts_cell \<Rightarrow> timestamp option" where
  "to_datetime c = (case c of ParsableTs t \<Rightarrow> Some t | UnparsableTs s \<Rightarrow> None)"

definition clean_price ::
  "(ts_cell, price_cell) tick list \<Rightarrow> nat \<times> (ts_cell, int) tick list" where
  "clean_price df =
     (let df1 = map (\<lambda>r. \<lparr>symbol = symbol r, price = to_numeric (price r),
                           produced_at = produced_at r\<rparr>) df;
          bad_records_count = isna_sum (map price df1);
          df2 = filter (\<lambda>r. price r \<noteq> None) df1;
          df3 = map (\<lambda>r. \<lparr>symbol = symbol r,
                           price = (case price r of Some n \<Rightarrow> n | None \<Rightarrow> 0),
                           produced_at = produced_at r\<rparr>) df2
      in (bad_records_count, df3))"

definition clean_produced_at ::
  "nat \<Rightarrow> (ts_cell, int) tick list \<Rightarrow> nat \<times> (timestamp, int) tick list" where
  "clean_produced_at bad_records_count df =
     (let df1 = map (\<lambda>r. \<lparr>symbol = symbol r, price = price r,
                           produced_at = to_datetime (produced_at r)\<rparr>) df;
          bad_records_count' = bad_records_count + isna_sum (map produced_at df1);
          df2 = filter (\<lambda>r. produced_at r \<noteq> None) df1;
          df3 = map (\<lambda>r. \<lparr>symbol = symbol r, price = price r,
                           produced_at = (case produced_at r of Some t \<Rightarrow> t
                                          | None \<Rightarrow> ((0, 0, 0), 0))\<rparr>) df2
      in (bad_records_count', df3))"

definition clean_ticks ::
  "(ts_cell, price_cell) tick list \<Rightarrow> nat \<times> (timestamp, int) tick list" where
  "clean_ticks df =
     (let (bad_records_count, df1) = clean_price df
      in clean_produced_at bad_records_count df1)"

text \<open>Lines 196 to 198: the load timestamp and the partition column.\<close>

definition to_history :: "timestamp \<Rightarrow> (timestamp, int) tick \<Rightarrow> stream_prices_history" where
  "to_history etl_loading_ts r =
     \<lparr>sph_symbol = symbol r, sph_price = price r, sph_produced_at = produced_at r,
      sph_etl_loading_ts = etl_loading_ts, sph_p_year = year (fst (produced_at r))\<rparr>"

subsection \<open>The latest-prices query (lines 216 to 224)\<close>

text \<open>\<open>where p_year = year(produced_at)\<close>\<close>

definition scanned :: "stream_prices_history list \<Rightarrow> stream_prices_history list" where
  "scanned history = filter (\<lambda>r. sph_p_year r = year (fst (sph_produced_at r))) history"

text \<open>
  \<open>partition by symbol\<close>: one group for each symbol that occurs. SQL leaves the order of
  the result rows open; here the groups follow the last occurrences of their symbols.
\<close>

definition partition_by_symbol ::
  "stream_prices_history list \<Rightarrow> stream_prices_history list list" where
  "partition_by_symbol rows =
     map (\<lambda>s. filter (\<lambda>r. sph_symbol r = s) rows) (remdups (map sph_symbol rows))"

text \<open>
  \<open>order by produced_at desc\<close>, as a stable insertion sort. SQL leaves the order of rows
  with equal \<open>produced_at\<close> to the engine; here it is the order in which the rows of the
  table are listed, so every choice of the engine is the result for some listing.
\<close>

fun insert_desc ::
  "stream_prices_history \<Rightarrow> stream_prices_history list \<Rightarrow> stream_prices_history list" where
  "insert_desc r [] = [r]"
| "insert_desc r (x # xs) =
     (if sph_produced_at r \<ge> sph_produced_at x then r # x # xs else x # insert_desc r xs)"

definition order_by_produced_at_desc ::
  "stream_prices_history list \<Rightarrow> stream_prices_history list" where
  "order_by_produced_at_desc rows = foldr insert_desc rows []"

text \<open>\<open>row_number() over (...)\<close>: the rows of each group numbered from 1 in their order.\<close>

definition row_number :: "'a list \<Rightarrow> ('a \<times> nat) list" where
  "row_number rows = zip rows [1 ..< Suc (length rows)]"

definition ranked :: "stream_prices_history list \<Rightarrow> (stream_prices_history \<times> nat) list" where
  "ranked history =
     concat (map (\<lambda>g. row_number (order_by_produced_at_desc g))
                 (partition_by_symbol (scanned history)))"

text \<open>The outer query: \<open>select symbol, price, produced_at from (...) a where ranking = 1\<close>.\<close>

definition select_columns :: "stream_prices_history \<Rightarrow> (timestamp, int) tick" where
  "select_columns r =
     \<lparr>symbol = sph_symbol r, price = sph_price r, produced_at = sph_produced_at r\<rparr>"

definition latest_prices_query ::
  "stream_prices_history list \<Rightarrow> (timestamp, int) tick list" where
  "latest_prices_query history =
     map (\<lambda>(r, ranking). select_columns r)
         (filter (\<lambda>(r, ranking). ranking = 1) (ranked history))"

text \<open>Line 228: \<open>df_athena['etl_loading_ts'] = etl_loading_ts\<close>\<close>

definition to_latest_prices :: "timestamp \<Rightarrow> (timestamp, int) tick \<Rightarrow> latest_prices" where
  "to_latest_prices etl_loading_ts r =
     \<lparr>lp_symbol = symbol r, lp_price = price r, lp_produced_at = produced_at r,
      lp_etl_loading_ts = etl_loading_ts\<rparr>"

subsection \<open>The handler\<close>

text \<open>
  The body of an SQS message after \<open>json.loads\<close>: its \<open>Event\<close> entry and its
  \<open>Records\<close> entry (bucket name and object key of each file), where present.
\<close>

record message_body =
  Event :: "string option"
  Records :: "(string \<times> string) list option"

text \<open>
  Lines 130 to 143: the paths of the files named by the messages; a test event is skipped,
  a body without \<open>Records\<close> raises.
\<close>

fun collect_paths :: "message_body list \<Rightarrow> error + string list" where
  "collect_paths [] = Inr []"
| "collect_paths (message_body # messages) =
     (if Event message_body = Some ''s3:TestEvent'' then collect_paths messages
      else case Records message_body of
             None \<Rightarrow> Inl KeyError
           | Some files \<Rightarrow>
               (case collect_paths messages of
                  Inl e \<Rightarrow> Inl e
                | Inr paths \<Rightarrow> Inr (map (\<lambda>(bucket, key). s3_path bucket key) files @ paths)))"

text \<open>
  What the handler reads from outside: the environment, whether the Athena connectivity
  query fails, the messages of the event, the JSON lines behind a list of paths, the rows
  of \<open>stream_prices_history\<close> before the invocation (the table lies over the append
  destination, so the query sees the appended rows), whether the append, the query and the
  overwrite fail, the clock reading taken as load timestamp, and the time between the
  first and the last clock reading.
\<close>

record stream_world =
  sw_environ :: "string \<rightharpoonup> string"
  athena_test_error :: "error option"
  messages :: "message_body list"
  s3_read_json :: "string list \<Rightarrow> error + (ts_cell, price_cell) tick list"
  history_table :: "stream_prices_history list"
  append_error :: "error option"
  athena_query_error :: "error option"
  overwrite_error :: "error option"
  now_etl :: timestamp
  sw_elapsed_us :: int

text \<open>
  What an invocation has done when it ends: what it returned or raised, the rows it
  appended to the history, and the frame it overwrote the latest-prices destination with.
\<close>

record stream_outcome =
  returned :: "error + pydict"
  appended :: "stream_prices_history list"
  overwritten :: "latest_prices list option"

definition raised :: "error \<Rightarrow> stream_outcome" where
  "raised e = \<lparr>returned = Inl e, appended = [], overwritten = None\<rparr>"

definition process_stock_stream_data :: "stream_world \<Rightarrow> stream_outcome" where
  "process_stock_stream_data w =
     (case sw_environ w ''dest_bucket_path_overwrite'' of
        None \<Rightarrow> raised UnboundLocalError
      | Some dest_bucket_path_overwrite \<Rightarrow>
     (case sw_environ w ''dest_bucket_path'' of
        None \<Rightarrow> raised UnboundLocalError
      | Some dest_bucket_path \<Rightarrow>
     (case athena_test_error w of
        Some e \<Rightarrow> raised e
      | None \<Rightarrow>
      if messages w = []
      then \<lparr>returned = Inr [(''status'', PyStr ''no_messages'')],
            appended = [], overwritten = None\<rparr>
      else
     (case collect_paths (messages w) of
        Inl e \<Rightarrow> raised e
      | Inr paths \<Rightarrow>
     (case s3_read_json w paths of
        Inl e \<Rightarrow> raised (if paths = [] then UnboundLocalError else e)
      | Inr df0 \<Rightarrow>
      if length df0 = 0
      then \<lparr>returned = Inr (summary ''success with warning'' 0 (sw_elapsed_us w)),
            appended = [], overwritten = None\<rparr>
      else
     (let (bad_records_count, df1) = clean_ticks df0;
          etl_loading_ts = now_etl w;
          df = map (to_history etl_loading_ts) df1 in
      case s3_to_parquet (append_error w) df of
        Some e \<Rightarrow> raised e
      | None \<Rightarrow>
     (case athena_query_error w of
        Some e \<Rightarrow> \<lparr>returned = Inl e, appended = df, overwritten = None\<rparr>
      | None \<Rightarrow>
     (let df_athena = map (to_latest_prices etl_loading_ts)
                          (latest_prices_query (history_table w @ df)) in
      case s3_to_parquet (overwrite_error w) df_athena of
        Some e \<Rightarrow> \<lparr>returned = Inl e, appended = df, overwritten = None\<rparr>
      | None \<Rightarrow>
      if bad_records_count = 0
      then \<lparr>returned = Inr (summary ''success'' (int (length df)) (sw_elapsed_us w)),
            appended = df, overwritten = Some df_athena\<rparr>
      else \<lparr>returned = Inr (summary ''success with warning'' (int (length df))
                              (sw_elapsed_us w)),
            appended = df, overwritten = Some df_athena\<rparr>))))))))"

section \<open>The generators\<close>

subsection \<open>Library functions\<close>

text \<open>
  \<open>random.randrange(start, stop)\<close>: an empty range raises; otherwise the result is
  \<open>start\<close> plus an index below \<open>stop - start\<close> that the generator chooses uniformly.
  The model is given the generator's raw choice \<open>draw\<close> and reduces it to an index.
\<close>

definition randrange :: "int \<Rightarrow> int \<Rightarrow> nat \<Rightarrow> error + int" where
  "randrange start stop draw =
     (if stop \<le> start then Inl ValueError
      else Inr (start + int (draw mod nat (stop - start))))"

text \<open>
  \<open>random.sample(population, k)\<close> for a population of at most 21 elements, where CPython
  copies the population to a pool and, for each of the \<open>k\<close> selections, picks a pool
  position below the number of elements left and moves the last of them there. \<open>rand\<close>
  are the generator's raw choices, read from position \<open>pos\<close> on.
\<close>

fun sample_loop :: "'a list \<Rightarrow> nat \<Rightarrow> nat \<Rightarrow> nat \<Rightarrow> (nat \<Rightarrow> nat) \<Rightarrow> nat \<Rightarrow> 'a list" where
  "sample_loop pool n i 0 rand pos = []"
| "sample_loop pool n i (Suc todo) rand pos =
     (let j = rand pos mod (n - i)
      in pool ! j # sample_loop (pool[j := pool ! (n - i - 1)]) n (Suc i) todo rand (Suc pos))"

definition sample :: "'a list \<Rightarrow> int \<Rightarrow> (nat \<Rightarrow> nat) \<Rightarrow> nat \<Rightarrow> error + 'a list" where
  "sample population k rand pos =
     (if k < 0 \<or> int (length population) < k then Inl ValueError
      else Inr (sample_loop population (length population) 0 (nat k) rand pos))"

text \<open>
  A positive double as mantissa and exponent, \<open>m * 2 ^ e\<close>. The two literals of the
  generators are \<open>0.9 = 8106479329266893 * 2 ^ -53\<close> and
  \<open>1.1 = 4953959590107546 * 2 ^ -52\<close>.
\<close>

type_synonym double = "nat \<times> int"

definition lit_0_9 :: double where
  "lit_0_9 = (8106479329266893, - 53)"

definition lit_1_1 :: double where
  "lit_1_1 = (4953959590107546, - 52)"

fun bitlen :: "nat \<Rightarrow> nat" where
  "bitlen n = (if n = 0 then 0 else Suc (bitlen (n div 2)))"

declare bitlen.simps [simp del]

text \<open>
  \<open>n * x\<close> for a non-negative integer \<open>n\<close> below \<open>2 ^ 53\<close> and a double \<open>x\<close>: the
  exact product rounded to 53 significant bits, a tie to the even mantissa.
\<close>

definition int_times_double :: "int \<Rightarrow> double \<Rightarrow> double" where
  "int_times_double n x =
     (let p = nat n * fst x; k = bitlen p - 53
      in if k = 0 then (p, snd x)
         else
           (let q = p div 2 ^ k; r = p mod 2 ^ k; half = 2 ^ (k - 1);
                q' = (if r < half then q
                      else if r > half then q + 1
                      else if even q then q else q + 1)
            in (q', snd x + int k)))"

text \<open>\<open>int(x)\<close> for a positive double: the integer part.\<close>

definition int_of_double :: "double \<Rightarrow> int" where
  "int_of_double x =
     (if 0 \<le> snd x then int (fst x * 2 ^ nat (snd x))
      else int (fst x div 2 ^ nat (- snd x)))"

text \<open>Decimal digits, zero padding and the \<open>strftime\<close> formats the generators use.\<close>

fun decimal :: "nat \<Rightarrow> string" where
  "decimal n =
     (if n < 10 then [''0123456789'' ! n]
      else decimal (n div 10) @ [''0123456789'' ! (n mod 10)])"

declare decimal.simps [simp del]

definition zfill :: "nat \<Rightarrow> string \<Rightarrow> string" where
  "zfill width s = replicate (width - length s) (CHR ''0'') @ s"

definition str_int :: "int \<Rightarrow> string" where
  "str_int i = (if i < 0 then ''-'' @ decimal (nat (- i)) else decimal (nat i))"

definition hour :: "timestamp \<Rightarrow> nat" where
  "hour t = snd t div 3600000000"

definition minute :: "timestamp \<Rightarrow> nat" where
  "minute t = snd t div 60000000 mod 60"

definition second :: "timestamp \<Rightarrow> nat" where
  "second t = snd t div 1000000 mod 60"

text \<open>\<open>'%Y-%m-%d'\<close>\<close>

definition strftime_date :: "civil_date \<Rightarrow> string" where
  "strftime_date d =
     (case d of (y, m, dd) \<Rightarrow>
        zfill 4 (str_int y) @ ''-'' @ zfill 2 (decimal m) @ ''-'' @ zfill 2 (decimal dd))"

text \<open>\<open>'%Y-%m-%d %H:%M:%S'\<close>\<close>

definition strftime_seconds :: "timestamp \<Rightarrow> string" where
  "strftime_seconds t =
     strftime_date (fst t) @ '' '' @ zfill 2 (decimal (hour t)) @ '':''
       @ zfill 2 (decimal (minute t)) @ '':'' @ zfill 2 (decimal (second t))"

text \<open>\<open>'%Y%m%d%H%M%S'\<close>\<close>

definition strftime_compact :: "timestamp \<Rightarrow> string" where
  "strftime_compact t =
     (case fst t of (y, m, dd) \<Rightarrow>
        zfill 4 (str_int y) @ zfill 2 (decimal m) @ zfill 2 (decimal dd)
          @ zfill 2 (decimal (hour t)) @ zfill 2 (decimal (minute t))
          @ zfill 2 (decimal (second t)))"

text \<open>\<open>date + timedelta(days = n)\<close> in the Gregorian calendar, a day at a time.\<close>

definition is_leap :: "int \<Rightarrow> bool" where
  "is_leap y \<longleftrightarrow> y mod 4 = 0 \<and> (y mod 100 \<noteq> 0 \<or> y mod 400 = 0)"

definition days_in_month :: "int \<Rightarrow> nat \<Rightarrow> nat" where
  "days_in_month y m =
     (if m = 2 then (if is_leap y then 29 else 28)
      else if m = 4 \<or> m = 6 \<or> m = 9 \<or> m = 11 then 30 else 31)"

definition next_day :: "civil_date \<Rightarrow> civil_date" where
  "next_day d =
     (case d of (y, m, dd) \<Rightarrow>
        if dd < days_in_month y m then (y, m, Suc dd)
        else if m < 12 then (y, Suc m, 1)
        else (y + 1, 1, 1))"

fun add_days :: "civil_date \<Rightarrow> nat \<Rightarrow> civil_date" where
  "add_days d 0 = d"
| "add_days d (Suc n) = add_days (next_day d) n"

subsection \<open>The symbol table\<close>

text \<open>
  The dictionary \<open>companies_price\<close>, in the order it is written (the order a Python
  dictionary is iterated in): each symbol with its \<open>current_price\<close>.
\<close>

definition companies_price :: "(string \<times> int) list" where
  "companies_price =
     [(''NVDA'', 143), (''AAPL'', 223), (''MSFT'', 444), (''AMZN'', 234),
      (''GOOGL'', 200), (''META'', 647), (''TSLA'', 407), (''WMT'', 95),
      (''JPM'', 265), (''V'', 330), (''ORCL'', 184), (''MA'', 490),
      (''XOM'', 109), (''NFLX'', 978), (''PG'', 164), (''SAP'', 276)]"

text \<open>\<open>int(current_price * 0.9)\<close> and \<open>int(current_price * 1.1)\<close>\<close>

definition min_price :: "int \<Rightarrow> int" where
  "min_price current_price = int_of_double (int_times_double current_price lit_0_9)"

definition max_price :: "int \<Rightarrow> int" where
  "max_price current_price = int_of_double (int_times_double current_price lit_1_1)"

subsection \<open>The streaming producer: \<open>create_stock_market_data\<close> and \<open>write_records_to_stream\<close>\<close>

text \<open>
  The loop of lines 143 to 159 over the symbol table. Iteration \<open>i\<close> takes the
  generator's choice \<open>rand i\<close> and the clock reading \<open>clock i\<close>; the record's
  \<open>produced_at\<close> is that reading formatted to the second.
\<close>

fun stock_data_loop ::
  "(nat \<Rightarrow> nat) \<Rightarrow> (nat \<Rightarrow> timestamp) \<Rightarrow> nat \<Rightarrow> (string \<times> int) list
     \<Rightarrow> error + (string, int) tick list" where
  "stock_data_loop rand clock i [] = Inr []"
| "stock_data_loop rand clock i ((k, current_price) # rest) =
     (case randrange (min_price current_price) (max_price current_price) (rand i) of
        Inl e \<Rightarrow> Inl e
      | Inr new_price \<Rightarrow>
          (let current_timestamp = clock i in
           case stock_data_loop rand clock (Suc i) rest of
             Inl e \<Rightarrow> Inl e
           | Inr stock_data \<Rightarrow>
               Inr (\<lparr>symbol = k, price = new_price,
                     produced_at = strftime_seconds current_timestamp\<rparr> # stock_data)))"

text \<open>The records before the subsample of line 161.\<close>

definition all_stock_data ::
  "(nat \<Rightarrow> nat) \<Rightarrow> (nat \<Rightarrow> timestamp) \<Rightarrow> error + (string, int) tick list" where
  "all_stock_data rand clock = stock_data_loop rand clock 0 companies_price"

definition create_stock_market_data ::
  "(nat \<Rightarrow> nat) \<Rightarrow> (nat \<Rightarrow> timestamp) \<Rightarrow> error + (string, int) tick list" where
  "create_stock_market_data rand clock =
     (case all_stock_data rand clock of
        Inl e \<Rightarrow> Inl e
      | Inr stock_data \<Rightarrow>
          (let n = length companies_price in
           case randrange 5 16 (rand n) of
             Inl e \<Rightarrow> Inl e
           | Inr k \<Rightarrow> sample stock_data k rand (Suc n)))"

text \<open>\<open>json.dumps(record)\<close> for a record of the producer; its strings need no escape.\<close>

definition dq :: string where
  "dq = [CHR 0x22]"

definition json_dumps :: "(string, int) tick \<Rightarrow> string" where
  "json_dumps record =
     ''{'' @ dq @ ''symbol'' @ dq @ '': '' @ dq @ symbol record @ dq
       @ '', '' @ dq @ ''price'' @ dq @ '': '' @ str_int (price record)
       @ '', '' @ dq @ ''produced_at'' @ dq @ '': '' @ dq @ produced_at record @ dq @ ''}''"

text \<open>An entry of the batch handed to \<open>put_records\<close>.\<close>

record kinesis_record =
  Data :: string
  PartitionKey :: string

text \<open>
  What the publisher reads from outside: the generator's choices, the clock readings, the
  module's \<open>stream_name\<close>, and the answer of \<open>put_records\<close> to a batch (a failure, or the
  response's \<open>FailedRecordCount\<close>).
\<close>

record publisher_world =
  pw_rand :: "nat \<Rightarrow> nat"
  pw_clock :: "nat \<Rightarrow> timestamp"
  stream_name :: string
  put_records :: "kinesis_record list \<Rightarrow> string \<Rightarrow> error + int"

text \<open>What a call that returns has done: the batch it put on the stream and its result.\<close>

record publisher_outcome =
  published :: "kinesis_record list"
  published_to :: string
  result :: pydict

definition write_records_to_stream ::
  "'r \<Rightarrow> 'e \<Rightarrow> publisher_world \<Rightarrow> error + publisher_outcome" where
  "write_records_to_stream records event w =
     (case create_stock_market_data (pw_rand w) (pw_clock w) of
        Inl e \<Rightarrow> Inl e
      | Inr records' \<Rightarrow>
          (let encoded_records =
                 map (\<lambda>record. \<lparr>Data = json_dumps record @ [CHR 0x0A],
                                  PartitionKey = symbol record\<rparr>) records' in
           case put_records w encoded_records (stream_name w) of
             Inl e \<Rightarrow> Inl e
           | Inr failed_record_count \<Rightarrow>
               if records' = [] then Inl IndexError
               else Inr \<lparr>published = encoded_records, published_to = stream_name w,
                         result = [(''FailedRecordCount'', PyInt failed_record_count),
                                   (''SuccessRecordCount'', PyInt (int (length records')))]\<rparr>))"

subsection \<open>The batch generator: \<open>generate_stock_batch_data\<close>\<close>

text \<open>\<open>date.toordinal()\<close>, whose difference is \<open>(date_2 - date_1).days\<close>.\<close>

definition days_before_year :: "int \<Rightarrow> int" where
  "days_before_year y = (y - 1) * 365 + (y - 1) div 4 - (y - 1) div 100 + (y - 1) div 400"

definition days_before_month :: "int \<Rightarrow> nat \<Rightarrow> nat" where
  "days_before_month y m = sum_list (map (days_in_month y) [1 ..< m])"

definition toordinal :: "civil_date \<Rightarrow> int" where
  "toordinal d = (case d of (y, m, dd) \<Rightarrow> days_before_year y + int (days_before_month y m) + int dd)"

definition date_1 :: civil_date where
  "date_1 = (2022, 1, 1)"

definition date_2 :: civil_date where
  "date_2 = (2024, 12, 31)"

definition days_diff_integer :: int where
  "days_diff_integer = toordinal date_2 - toordinal date_1"

text \<open>
  The loop of lines 113 to 122: each company's row with the shared date and a price drawn
  between the bounds computed by the loop of lines 98 to 100.
\<close>

fun close_price_loop ::
  "(nat \<Rightarrow> nat) \<Rightarrow> nat \<Rightarrow> string \<Rightarrow> (string \<times> int \<times> int) list
     \<Rightarrow> error + (string, int) row list" where
  "close_price_loop rand i random_date [] = Inr []"
| "close_price_loop rand i random_date ((k, min_p, max_p) # rest) =
     (case randrange min_p max_p (rand i) of
        Inl e \<Rightarrow> Inl e
      | Inr p \<Rightarrow>
          (case close_price_loop rand (Suc i) random_date rest of
             Inl e \<Rightarrow> Inl e
           | Inr rows \<Rightarrow>
               Inr (\<lparr>company = k, date = random_date, close_price = p\<rparr> # rows)))"

text \<open>
  What the generator reads from outside: the generator's choices, the environment, the
  reading of \<open>datetime.today()\<close>, and whether the CSV write fails.
\<close>

record generator_world =
  g_rand :: "nat \<Rightarrow> nat"
  g_environ :: "string \<rightharpoonup> string"
  today :: timestamp
  s3_to_csv_error :: "error option"

text \<open>What a call that returns has done: the CSV file it wrote. It returns \<open>None\<close>.\<close>

record generator_outcome =
  csv_path :: string
  csv_rows :: "(string, int) row list"

definition generate_stock_batch_data :: "generator_world \<Rightarrow> error + generator_outcome" where
  "generate_stock_batch_data w =
     (let bounds = map (\<lambda>(k, current_price).
                          (k, min_price current_price, max_price current_price))
                       companies_price in
      case randrange 0 days_diff_integer (g_rand w 0) of
        Inl e \<Rightarrow> Inl e
      | Inr random_days \<Rightarrow>
     (let random_date = strftime_date (add_days date_1 (nat random_days)) in
      case close_price_loop (g_rand w) 1 random_date bounds of
        Inl e \<Rightarrow> Inl e
      | Inr df \<Rightarrow>
     (let file_name = strftime_compact (today w) in
      case g_environ w ''dest_bucket_path'' of
        None \<Rightarrow> Inl KeyError
      | Some dest_bucket_path \<Rightarrow>
     (let path = dest_bucket_path @ file_name @ ''.csv'' in
      case s3_to_csv_error w of
        Some e \<Rightarrow> Inl e
      | None \<Rightarrow> Inr \<lparr>csv_path = path, csv_rows = df\<rparr>))))"

section \<open>Vocabulary of the properties\<close>

text \<open>The key of a row of the incoming batch and of a row of the persisted table.\<close>

definition key_of :: "(civil_date, int) row \<Rightarrow> string \<times> civil_date" where
  "key_of r = (company r, date r)"

definition pbd_key :: "price_by_date \<Rightarrow> string \<times> civil_date" where
  "pbd_key s = (pbd_company s, pbd_close_date s)"

text \<open>Every row of the persisted table has a price (no null in \<open>close_price\<close>).\<close>

definition non_null_prices :: "price_by_date list \<Rightarrow> bool" where
  "non_null_prices S \<longleftrightarrow> list_all (\<lambda>s. pbd_close_price s \<noteq> None) S"

text \<open>
  The persisted table holds at most one \<open>close_price\<close> for a key: rows with the same key
  have the same value in that column. Likewise for the cleaned incoming batch.
\<close>

definition one_price_per_key :: "price_by_date list \<Rightarrow> bool" where
  "one_price_per_key S \<longleftrightarrow>
     list_all (\<lambda>r1. list_all (\<lambda>r2. pbd_key r1 = pbd_key r2
                                   \<longrightarrow> pbd_close_price r1 = pbd_close_price r2) S) S"

definition batch_one_price_per_key :: "(civil_date, int) row list \<Rightarrow> bool" where
  "batch_one_price_per_key B \<longleftrightarrow>
     list_all (\<lambda>r1. list_all (\<lambda>r2. key_of r1 = key_of r2
                                   \<longrightarrow> close_price r1 = close_price r2) B) B"

text \<open>The persisted table after the delta of batch \<open>B\<close> against snapshot \<open>S\<close> is appended to it.\<close>

definition store_after :: "(civil_date, int) row list \<Rightarrow> price_by_date list \<Rightarrow> price_by_date list" where
  "store_after B S = S @ map to_price_by_date (df_new_records B S)"

text \<open>
  The persisted table the handler builds from the empty table when it is run on a sequence
  of cleaned batches, one after another.
\<close>

definition built_from_empty :: "(civil_date, int) row list list \<Rightarrow> price_by_date list" where
  "built_from_empty batches = foldl (\<lambda>S B. store_after B S) [] batches"

text \<open>
  The count the specification describes: the rows whose price fails coercion plus the rows
  whose date fails parsing, each counted over the whole raw batch.
\<close>

definition price_failures :: "(date_cell, price_cell) row list \<Rightarrow> nat" where
  "price_failures df = length (filter (\<lambda>r. to_numeric (close_price r) = None) df)"

definition date_failures :: "(date_cell, price_cell) row list \<Rightarrow> nat" where
  "date_failures df = length (filter (\<lambda>r. to_datetime_date (date r) = None) df)"

text \<open>The rows that fail on the date alone: the price coerces, the date does not parse.\<close>

definition date_only_failures :: "(date_cell, price_cell) row list \<Rightarrow> nat" where
  "date_only_failures df =
     length (filter (\<lambda>r. to_numeric (close_price r) \<noteq> None \<and> to_datetime_date (date r) = None) df)"

text \<open>The same three counts for the ticks of the streaming processor.\<close>

definition tick_price_failures :: "(ts_cell, price_cell) tick list \<Rightarrow> nat" where
  "tick_price_failures df = length (filter (\<lambda>r. to_numeric (price r) = None) df)"

definition tick_time_failures :: "(ts_cell, price_cell) tick list \<Rightarrow> nat" where
  "tick_time_failures df = length (filter (\<lambda>r. to_datetime (produced_at r) = None) df)"

definition tick_time_only_failures :: "(ts_cell, price_cell) tick list \<Rightarrow> nat" where
  "tick_time_only_failures df =
     length (filter (\<lambda>r. to_numeric (price r) \<noteq> None \<and> to_datetime (produced_at r) = None) df)"

text \<open>
  A row of the latest-prices view is the latest of its symbol: it has the symbol, price and
  \<open>produced_at\<close> of a row of the history table that lies in the partition of its own year
  (\<open>p_year = year(produced_at)\<close>), and its \<open>produced_at\<close> is the greatest among the rows
  of the table that lie in the partition of their own year and have its symbol.
\<close>

definition is_latest_of :: "stream_prices_history list \<Rightarrow> (timestamp, int) tick \<Rightarrow> bool" where
  "is_latest_of history v \<longleftrightarrow>
     (\<exists>r \<in> set history.
        sph_p_year r = year (fst (sph_produced_at r))
        \<and> symbol v = sph_symbol r \<and> price v = sph_price r \<and> produced_at v = sph_produced_at r)
     \<and> produced_at v =
         Max (sph_produced_at ` {r \<in> set history. sph_p_year r = year (fst (sph_produced_at r))
                                                  \<and> sph_symbol r = symbol v})"

text \<open>
  A returned dictionary has the structure of the specification: a \<open>status\<close> among the three
  named ones, an integer \<open>records_appended\<close> and a numeric \<open>duration_seconds\<close>.
\<close>

definition has_all_fields :: "pydict \<Rightarrow> bool" where
  "has_all_fields d \<longleftrightarrow>
     (case (map_of d ''status'', map_of d ''records_appended'', map_of d ''duration_seconds'') of
        (Some (PyStr s), Some (PyInt n), Some (PyFloat x)) \<Rightarrow>
          s = ''success'' \<or> s = ''success with warning'' \<or> s = ''no_messages''
      | _ \<Rightarrow> False)"

text \<open>
  The price range of the specification for a reference price: from the floor of 0.9 times
  the reference (inclusive) to the floor of 1.1 times the reference (exclusive), over the
  reals.
\<close>

definition price_in_range :: "int \<Rightarrow> int \<Rightarrow> bool" where
  "price_in_range ref p \<longleftrightarrow>
     \<lfloor>9 / 10 * real_of_int ref\<rfloor> \<le> p \<and> p < \<lfloor>11 / 10 * real_of_int ref\<rfloor>"

text \<open>A generated record is in range: its symbol is in the table and its price in the range of that symbol.\<close>

definition tick_in_range :: "(string, int) tick \<Rightarrow> bool" where
  "tick_in_range r \<longleftrightarrow>
     (case map_of companies_price (symbol r) of
        None \<Rightarrow> False
      | Some ref \<Rightarrow> price_in_range ref (price r))"

definition row_in_range :: "(string, int) row \<Rightarrow> bool" where
  "row_in_range r \<longleftrightarrow>
     (case map_of companies_price (company r) of
        None \<Rightarrow> False
      | Some ref \<Rightarrow> price_in_range ref (close_price r))"

section \<open>Properties of the daily-batch delta\<close>

lemma matches_key: "matches l r \<longleftrightarrow> pbd_key r = key_of l"
  by (auto simp: matches_def pbd_key_def key_of_def)

lemma no_match_iff: "filter (matches l) S = [] \<longleftrightarrow> key_of l \<notin> pbd_key ` set S"
  by (simp add: filter_empty_conv matches_key image_iff) metis

lemma new_records_single:
  assumes "\<forall>s \<in> set S. pbd_close_price s \<noteq> None"
  shows "df_new_records [l] S = (if key_of l \<in> pbd_key ` set S then [] else [l])"
proof (cases "filter (matches l) S")
  case Nil
  then have "key_of l \<notin> pbd_key ` set S" using no_match_iff by blast
  with Nil show ?thesis
    by (simp add: df_new_records_def merge_left_def close_price_y_def)
next
  case (Cons m ms)
  then have in_S: "key_of l \<in> pbd_key ` set S"
    using no_match_iff [of l S] by simp
  have sub: "set (m # ms) \<subseteq> set S"
    using Cons by (metis filter_is_subset)
  have "filter (\<lambda>m. close_price_y m = None) (map (\<lambda>r. (l, Some r)) (m # ms)) = []"
    using sub assms by (auto simp: filter_empty_conv close_price_y_def)
  with Cons in_S show ?thesis
    by (simp add: df_new_records_def merge_left_def)
qed

lemma new_records_Cons:
  "df_new_records (l # B) S = df_new_records [l] S @ df_new_records B S"
  by (simp add: df_new_records_def merge_left_def)

lemma new_records_filter:
  assumes "\<forall>s \<in> set S. pbd_close_price s \<noteq> None"
  shows "df_new_records B S = filter (\<lambda>r. key_of r \<notin> pbd_key ` set S) B"
proof (induction B)
  case Nil
  show ?case by (simp add: df_new_records_def merge_left_def)
next
  case (Cons l B)
  show ?case
    using new_records_Cons [of l B S] new_records_single [OF assms, of l] Cons.IH
    by simp
qed

lemma non_null_prices_iff: "non_null_prices S \<longleftrightarrow> (\<forall>s \<in> set S. pbd_close_price s \<noteq> None)"
  by (simp add: non_null_prices_def list_all_iff)

lemma pbd_key_to_price_by_date: "pbd_key (to_price_by_date r) = key_of r"
  by (simp add: pbd_key_def key_of_def to_price_by_date_def)

lemma non_null_store_after: "non_null_prices S \<Longrightarrow> non_null_prices (store_after B S)"
  by (auto simp: non_null_prices_def store_after_def list_all_iff to_price_by_date_def)

lemma one_price_per_key_iff:
  "one_price_per_key S \<longleftrightarrow>
     (\<forall>r1 \<in> set S. \<forall>r2 \<in> set S. pbd_key r1 = pbd_key r2 \<longrightarrow> pbd_close_price r1 = pbd_close_price r2)"
  by (simp add: one_price_per_key_def list_all_iff)

lemma batch_one_price_per_key_iff:
  "batch_one_price_per_key B \<longleftrightarrow>
     (\<forall>r1 \<in> set B. \<forall>r2 \<in> set B. key_of r1 = key_of r2 \<longrightarrow> close_price r1 = close_price r2)"
  by (simp add: batch_one_price_per_key_def list_all_iff)

text \<open>Against the snapshot with its delta appended, every key of the batch is known.\<close>

lemma delta_after_append_empty:
  assumes "non_null_prices S"
  shows "df_new_records B (store_after B S) = []"
proof -
  have nn: "non_null_prices (store_after B S)" using assms by (rule non_null_store_after)
  have "key_of r \<in> pbd_key ` set (store_after B S)" if "r \<in> set B" for r
  proof (cases "key_of r \<in> pbd_key ` set S")
    case True
    then show ?thesis by (auto simp: store_after_def)
  next
    case False
    with that have "r \<in> set (df_new_records B S)"
      using new_records_filter [of S B] assms non_null_prices_iff by simp
    then have "pbd_key (to_price_by_date r) \<in> pbd_key ` set (store_after B S)"
      by (simp add: store_after_def)
    then show ?thesis by (simp add: pbd_key_to_price_by_date)
  qed
  then have "filter (\<lambda>r. key_of r \<notin> pbd_key ` set (store_after B S)) B = []"
    by (simp add: filter_empty_conv)
  then show ?thesis
    using new_records_filter [of "store_after B S" B] nn non_null_prices_iff by simp
qed

subsection \<open>The delta against a snapshot\<close>

text \<open>
  C1. Daily-batch delta correctness: for every cleaned incoming batch \<open>B\<close> and every
  persisted snapshot \<open>S\<close> whose rows all have a non-null \<open>close_price\<close>, the delta the
  handler computes (lines 170 to 172) is exactly the rows of \<open>B\<close>, in their order, whose
  (company, date) key is the key of no row of \<open>S\<close>; as a set it is the rows of \<open>B\<close> with
  a key absent from \<open>S\<close>, and no row of the delta shares a key with a row of \<open>S\<close>. The
  snapshot need not have one row per key for this.
\<close>

theorem delta_is_set_difference:
  assumes "non_null_prices S"
  shows "df_new_records B S = filter (\<lambda>r. key_of r \<notin> pbd_key ` set S) B
       \<and> set (df_new_records B S) = {r \<in> set B. key_of r \<notin> pbd_key ` set S}
       \<and> key_of ` set (df_new_records B S) \<inter> pbd_key ` set S = {}"
proof -
  have eq: "df_new_records B S = filter (\<lambda>r. key_of r \<notin> pbd_key ` set S) B"
    using assms new_records_filter non_null_prices_iff by blast
  have "set (filter (\<lambda>r. key_of r \<notin> pbd_key ` set S) B) = {r \<in> set B. key_of r \<notin> pbd_key ` set S}"
    by simp
  moreover have "key_of ` set (filter (\<lambda>r. key_of r \<notin> pbd_key ` set S) B) \<inter> pbd_key ` set S = {}"
    by (auto simp: image_def)
  ultimately show ?thesis using eq by simp
qed

text \<open>
  The theorem at a snapshot holding AAPL for 2024-01-01 and a batch with that key and a new
  one: only the new row is in the delta.
\<close>

theorem delta_is_set_difference_witness:
  "non_null_prices
     [\<lparr>pbd_company = ''AAPL'', pbd_close_date = (2024, 1, 1), pbd_close_price = Some 200,
       pbd_p_year = 2024\<rparr>]
   \<and> df_new_records
       [\<lparr>company = ''AAPL'', date = (2024, 1, 1), close_price = 201\<rparr>,
        \<lparr>company = ''MSFT'', date = (2024, 1, 1), close_price = 444\<rparr>]
       [\<lparr>pbd_company = ''AAPL'', pbd_close_date = (2024, 1, 1), pbd_close_price = Some 200,
         pbd_p_year = 2024\<rparr>]
     = [\<lparr>company = ''MSFT'', date = (2024, 1, 1), close_price = 444\<rparr>]"
proof -
  let ?S = "[\<lparr>pbd_company = ''AAPL'', pbd_close_date = (2024, 1, 1), pbd_close_price = Some 200,
       pbd_p_year = 2024\<rparr>]"
  have h: "non_null_prices ?S" by (simp add: non_null_prices_def)
  show ?thesis
    using h delta_is_set_difference [OF h,
      of "[\<lparr>company = ''AAPL'', date = (2024, 1, 1), close_price = 201\<rparr>,
        \<lparr>company = ''MSFT'', date = (2024, 1, 1), close_price = 444\<rparr>]"]
    by (simp add: key_of_def pbd_key_def)
qed

subsection \<open>Running the same batch twice\<close>

text \<open>
  A persisted snapshot has a price in every row: the handler drops the rows without one and
  casts the column to 64-bit integers before its only write, so every table it builds from
  the empty table is free of nulls, and the second run of a batch against such a table
  finds nothing new.
\<close>

lemma built_from_empty_non_null: "non_null_prices (built_from_empty batches)"
proof (induction batches rule: rev_induct)
  case Nil
  show ?case by (simp add: built_from_empty_def non_null_prices_def)
next
  case (snoc B batches)
  then show ?case by (simp add: built_from_empty_def non_null_store_after)
qed

lemma second_run_on_built_table:
  "df_new_records B (store_after B (built_from_empty batches)) = []"
  using built_from_empty_non_null by (rule delta_after_append_empty)

text \<open>
  C2. Idempotence of the daily-batch delta engine: for every cleaned batch \<open>B\<close> and every
  persisted snapshot \<open>S\<close> (every row of it has a \<open>close_price\<close>, as the rows of C1's
  snapshot have), if a first run against \<open>S\<close> produces the delta \<open>D\<close>, then a second run of
  the same batch against \<open>S\<close> with \<open>D\<close> appended produces an empty delta. In particular
  this holds, with nothing assumed, against every table the handler has built from the
  empty table.
\<close>

theorem second_run_delta_empty:
  assumes "non_null_prices S"
  shows "df_new_records B (store_after B S) = []
       \<and> df_new_records B (store_after B (built_from_empty batches)) = []"
proof
  show "df_new_records B (store_after B S) = []"
    using assms by (rule delta_after_append_empty)
  show "df_new_records B (store_after B (built_from_empty batches)) = []"
    using built_from_empty_non_null by (rule delta_after_append_empty)
qed

text \<open>The theorem at the snapshot and batch of the example above.\<close>

theorem second_run_delta_empty_witness:
  "non_null_prices
     [\<lparr>pbd_company = ''AAPL'', pbd_close_date = (2024, 1, 1), pbd_close_price = Some 200,
       pbd_p_year = 2024\<rparr>] \<and>
   store_after
     [\<lparr>company = ''AAPL'', date = (2024, 1, 1), close_price = 201\<rparr>,
      \<lparr>company = ''MSFT'', date = (2024, 1, 1), close_price = 444\<rparr>]
     [\<lparr>pbd_company = ''AAPL'', pbd_close_date = (2024, 1, 1), pbd_close_price = Some 200,
       pbd_p_year = 2024\<rparr>]
   = [\<lparr>pbd_company = ''AAPL'', pbd_close_date = (2024, 1, 1), pbd_close_price = Some 200,
        pbd_p_year = 2024\<rparr>,
      \<lparr>pbd_company = ''MSFT'', pbd_close_date = (2024, 1, 1), pbd_close_price = Some 444,
        pbd_p_year = 2024\<rparr>] \<and>
   df_new_records
     [\<lparr>company = ''AAPL'', date = (2024, 1, 1), close_price = 201\<rparr>,
      \<lparr>company = ''MSFT'', date = (2024, 1, 1), close_price = 444\<rparr>]
     (store_after
        [\<lparr>company = ''AAPL'', date = (2024, 1, 1), close_price = 201\<rparr>,
         \<lparr>company = ''MSFT'', date = (2024, 1, 1), close_price = 444\<rparr>]
        [\<lparr>pbd_company = ''AAPL'', pbd_close_date = (2024, 1, 1), pbd_close_price = Some 200,
          pbd_p_year = 2024\<rparr>])
   = []"
proof -
  let ?S = "[\<lparr>pbd_company = ''AAPL'', pbd_close_date = (2024, 1, 1), pbd_close_price = Some 200,
       pbd_p_year = 2024\<rparr>]"
  let ?B = "[\<lparr>company = ''AAPL'', date = (2024, 1, 1), close_price = 201\<rparr>,
      \<lparr>company = ''MSFT'', date = (2024, 1, 1), close_price = (444::int)\<rparr>]"
  have h: "non_null_prices ?S" by (simp add: non_null_prices_def)
  have st: "store_after ?B ?S = ?S @ [\<lparr>pbd_company = ''MSFT'', pbd_close_date = (2024, 1, 1),
      pbd_close_price = Some 444, pbd_p_year = 2024\<rparr>]"
    by (simp add: store_after_def df_new_records_def merge_left_def matches_def close_price_y_def
        to_price_by_date_def year_def)
  show ?thesis
    using h st second_run_delta_empty [OF h, where B = ?B and batches = "[]", THEN conjunct1]
    by simp
qed

subsection \<open>One price per key\<close>

text \<open>
  C6 as stated fails twice over. Two incoming rows with the same new key and different
  prices are both appended (the handler compares the batch with the snapshot only, never
  with itself); and a snapshot row with a null \<open>close_price\<close> does not keep an incoming row
  with its key out of the delta.
\<close>

theorem uniqueness_counterexample:
  "one_price_per_key [] \<and>
   \<not> one_price_per_key
       (store_after
          [\<lparr>company = ''AAPL'', date = (2024, 1, 1), close_price = 200\<rparr>,
           \<lparr>company = ''AAPL'', date = (2024, 1, 1), close_price = 210\<rparr>]
          []) \<and>
   one_price_per_key
     [\<lparr>pbd_company = ''AAPL'', pbd_close_date = (2024, 1, 1), pbd_close_price = None,
       pbd_p_year = 2024\<rparr>] \<and>
   \<not> one_price_per_key
       (store_after
          [\<lparr>company = ''AAPL'', date = (2024, 1, 1), close_price = 200\<rparr>]
          [\<lparr>pbd_company = ''AAPL'', pbd_close_date = (2024, 1, 1), pbd_close_price = None,
            pbd_p_year = 2024\<rparr>])"
  by (simp add: one_price_per_key_def store_after_def df_new_records_def merge_left_def
      matches_def close_price_y_def to_price_by_date_def year_def pbd_key_def)

text \<open>
  C6, amended. For every persisted table that holds at most one \<open>close_price\<close> for a key and
  no null \<open>close_price\<close>, and every cleaned incoming batch that holds at most one
  \<open>close_price\<close> for a key, the table with the computed delta appended still holds at most
  one \<open>close_price\<close> for a key.
\<close>

theorem uniqueness_preserved:
  assumes S: "one_price_per_key S" and nn: "non_null_prices S"
      and B: "batch_one_price_per_key B"
  shows "one_price_per_key (store_after B S)"
proof -
  let ?D = "df_new_records B S"
  have D: "?D = filter (\<lambda>r. key_of r \<notin> pbd_key ` set S) B"
    using nn new_records_filter non_null_prices_iff by blast
  have old_new: "pbd_key s \<noteq> pbd_key (to_price_by_date d)" if "s \<in> set S" "d \<in> set ?D" for s d
  proof -
    from that(2) have "key_of d \<notin> pbd_key ` set S" by (simp add: D)
    with that(1) show ?thesis unfolding pbd_key_to_price_by_date by (metis imageI)
  qed
  have new_new: "pbd_close_price (to_price_by_date d1) = pbd_close_price (to_price_by_date d2)"
    if "d1 \<in> set ?D" "d2 \<in> set ?D" "pbd_key (to_price_by_date d1) = pbd_key (to_price_by_date d2)"
    for d1 d2
  proof -
    from that(1,2) have "d1 \<in> set B" "d2 \<in> set B" by (simp_all add: D)
    moreover from that(3) have "key_of d1 = key_of d2" by (simp add: pbd_key_to_price_by_date)
    ultimately have "close_price d1 = close_price d2"
      using B batch_one_price_per_key_iff by blast
    then show ?thesis by (simp add: to_price_by_date_def)
  qed
  have old_old: "pbd_close_price r1 = pbd_close_price r2"
    if "r1 \<in> set S" "r2 \<in> set S" "pbd_key r1 = pbd_key r2" for r1 r2
    using S that one_price_per_key_iff by blast
  show ?thesis
    unfolding one_price_per_key_iff store_after_def
  proof (intro ballI impI)
    fix r1 r2
    assume r1: "r1 \<in> set (S @ map to_price_by_date ?D)"
       and r2: "r2 \<in> set (S @ map to_price_by_date ?D)"
       and k: "pbd_key r1 = pbd_key r2"
    from r1 consider "r1 \<in> set S" | d1 where "d1 \<in> set ?D" "r1 = to_price_by_date d1" by auto
    then show "pbd_close_price r1 = pbd_close_price r2"
    proof cases
      case 1
      from r2 consider "r2 \<in> set S" | d2 where "d2 \<in> set ?D" "r2 = to_price_by_date d2" by auto
      then show ?thesis
      proof cases
        case 1
        with \<open>r1 \<in> set S\<close> k show ?thesis using old_old by blast
      next
        case 2
        with \<open>r1 \<in> set S\<close> k show ?thesis using old_new by blast
      qed
    next
      case 2
      from r2 consider "r2 \<in> set S" | d2 where "d2 \<in> set ?D" "r2 = to_price_by_date d2" by auto
      then show ?thesis
      proof cases
        case 1
        with 2 k show ?thesis using old_new [of r2 d1] by simp
      next
        case (2 d2)
        with \<open>d1 \<in> set ?D\<close> \<open>r1 = to_price_by_date d1\<close> k show ?thesis using new_new by blast
      qed
    qed
  qed
qed

text \<open>The theorem at a table with one row and a batch that brings one known and one new key.\<close>

theorem uniqueness_preserved_witness:
  "one_price_per_key
     [\<lparr>pbd_company = ''AAPL'', pbd_close_date = (2024, 1, 1), pbd_close_price = Some 200,
       pbd_p_year = 2024\<rparr>] \<and>
   non_null_prices
     [\<lparr>pbd_company = ''AAPL'', pbd_close_date = (2024, 1, 1), pbd_close_price = Some 200,
       pbd_p_year = 2024\<rparr>] \<and>
   batch_one_price_per_key
     [\<lparr>company = ''AAPL'', date = (2024, 1, 1), close_price = 205\<rparr>,
      \<lparr>company = ''AAPL'', date = (2024, 1, 2), close_price = 210\<rparr>] \<and>
   one_price_per_key
     (store_after
        [\<lparr>company = ''AAPL'', date = (2024, 1, 1), close_price = 205\<rparr>,
         \<lparr>company = ''AAPL'', date = (2024, 1, 2), close_price = 210\<rparr>]
        [\<lparr>pbd_company = ''AAPL'', pbd_close_date = (2024, 1, 1), pbd_close_price = Some 200,
          pbd_p_year = 2024\<rparr>])"
proof -
  let ?S = "[\<lparr>pbd_company = ''AAPL'', pbd_close_date = (2024, 1, 1), pbd_close_price = Some 200,
       pbd_p_year = 2024\<rparr>]"
  let ?B = "[\<lparr>company = ''AAPL'', date = (2024, 1, 1), close_price = 205\<rparr>,
      \<lparr>company = ''AAPL'', date = (2024, 1, 2), close_price = (210::int)\<rparr>]"
  have s: "one_price_per_key ?S" by (simp add: one_price_per_key_def)
  have n: "non_null_prices ?S" by (simp add: non_null_prices_def)
  have b: "batch_one_price_per_key ?B" by (simp add: batch_one_price_per_key_def key_of_def)
  show ?thesis using s n b uniqueness_preserved [OF s n b] by simp
qed

section \<open>Properties of the cleaning\<close>

lemma fst_clean_close_price: "fst (clean_close_price df) = price_failures df"
  by (simp add: clean_close_price_def price_failures_def isna_sum_def Let_def filter_map o_def)

lemma fst_clean_batch:
  "fst (clean_batch df) = price_failures df + date_only_failures df"
  by (simp add: clean_batch_def clean_close_price_def clean_date_def price_failures_def
      date_only_failures_def isna_sum_def Let_def filter_map o_def conj_commute)

lemma length_clean_batch:
  "length (snd (clean_batch df)) + fst (clean_batch df) = length df"
proof (induction df)
  case Nil
  show ?case
    by (simp add: clean_batch_def clean_close_price_def clean_date_def isna_sum_def)
next
  case (Cons r df)
  then show ?case
    by (cases "to_numeric (close_price r)"; cases "to_datetime_date (date r)")
       (auto simp: clean_batch_def clean_close_price_def clean_date_def isna_sum_def Let_def)
qed

lemma fst_clean_ticks:
  "fst (clean_ticks df) = tick_price_failures df + tick_time_only_failures df"
  by (simp add: clean_ticks_def clean_price_def clean_produced_at_def tick_price_failures_def
      tick_time_only_failures_def isna_sum_def Let_def filter_map o_def conj_commute)

lemma length_clean_ticks:
  "length (snd (clean_ticks df)) + fst (clean_ticks df) = length df"
proof (induction df)
  case Nil
  show ?case
    by (simp add: clean_ticks_def clean_price_def clean_produced_at_def isna_sum_def)
next
  case (Cons r df)
  then show ?case
    by (cases "to_numeric (price r)"; cases "to_datetime (produced_at r)")
       (auto simp: clean_ticks_def clean_price_def clean_produced_at_def isna_sum_def Let_def)
qed

text \<open>
  C5 as stated fails: the date column is parsed and its failures counted only after the
  rows with a bad price have been dropped (line 136 before line 150, line 178 before line
  186), so a row that fails both coercions is counted once. For one such row both
  processors report 1, where the sum of the two failure counts over the raw batch is 2.
\<close>

theorem bad_record_count_counterexample:
  "fst (clean_batch
          [\<lparr>company = ''AAPL'', date = Unparsable ''n/a'', close_price = NotNumeric ''abc''\<rparr>]) = 1
   \<and> price_failures
          [\<lparr>company = ''AAPL'', date = Unparsable ''n/a'', close_price = NotNumeric ''abc''\<rparr>]
     + date_failures
          [\<lparr>company = ''AAPL'', date = Unparsable ''n/a'', close_price = NotNumeric ''abc''\<rparr>] = 2
   \<and> fst (clean_ticks
          [\<lparr>symbol = ''AAPL'', price = NotNumeric ''abc'', produced_at = UnparsableTs ''n/a''\<rparr>]) = 1
   \<and> tick_price_failures
          [\<lparr>symbol = ''AAPL'', price = NotNumeric ''abc'', produced_at = UnparsableTs ''n/a''\<rparr>]
     + tick_time_failures
          [\<lparr>symbol = ''AAPL'', price = NotNumeric ''abc'', produced_at = UnparsableTs ''n/a''\<rparr>] = 2"
  by (simp add: clean_batch_def clean_close_price_def clean_date_def isna_sum_def
      price_failures_def date_failures_def to_numeric_def to_datetime_date_def
      clean_ticks_def clean_price_def clean_produced_at_def tick_price_failures_def
      tick_time_failures_def to_datetime_def)

text \<open>
  C5, amended. For every raw batch, the reported bad-record count equals the number of rows
  whose price field fails numeric coercion plus the number of rows whose price coerces and
  whose date or timestamp field fails parsing; it is the number of rows dropped, so a row
  that fails both coercions increments the count once. This holds for the daily-batch
  processor and for the streaming processor.
\<close>

theorem bad_record_count:
  "fst (clean_batch df) = price_failures df + date_only_failures df
   \<and> fst (clean_batch df) = length df - length (snd (clean_batch df))
   \<and> fst (clean_ticks ticks) = tick_price_failures ticks + tick_time_only_failures ticks
   \<and> fst (clean_ticks ticks) = length ticks - length (snd (clean_ticks ticks))"
  using fst_clean_batch [of df] length_clean_batch [of df]
        fst_clean_ticks [of ticks] length_clean_ticks [of ticks]
  by linarith

section \<open>Properties of the daily-batch handler\<close>

text \<open>The two ways an invocation that reaches the comparison ends.\<close>

lemma new_records_Nil: "df_new_records [] S = []"
  by (simp add: df_new_records_def merge_left_def)

lemma handler_no_new_records:
  assumes "event_records w = (b, k) # rest"
      and "environ w ''dest_bucket_path'' = Some dest"
      and "s3_read_csv w (s3_path b k) = Inr raw"
      and "athena_price_by_date w = Inr S"
      and "df_new_records (snd (clean_batch raw)) S = []"
  shows "process_batch_files_lambda w =
           Inr \<lparr>response = summary ''success with warning'' 0 (elapsed_us w), writes = []\<rparr>"
proof -
  obtain bad df where cb: "clean_batch raw = (bad, df)" by (cases "clean_batch raw")
  with assms(5) have "df_new_records df S = []" by simp
  with assms(1-4) cb show ?thesis
    by (simp add: process_batch_files_lambda_def Let_def)
qed

lemma handler_new_records:
  assumes "event_records w = (b, k) # rest"
      and "environ w ''dest_bucket_path'' = Some dest"
      and "s3_read_csv w (s3_path b k) = Inr raw"
      and "athena_price_by_date w = Inr S"
      and "df_new_records (snd (clean_batch raw)) S = D"
      and "D \<noteq> []"
      and "s3_to_parquet_error w = None"
  shows "process_batch_files_lambda w =
           Inr \<lparr>response = summary (if length raw = length D then ''success''
                                     else ''success with warning'')
                                    (int (length D)) (elapsed_us w),
                writes = [(dest, map to_price_by_date D)]\<rparr>"
proof -
  have "raw \<noteq> []"
  proof
    assume "raw = []"
    then have "snd (clean_batch raw) = []"
      by (simp add: clean_batch_def clean_close_price_def clean_date_def isna_sum_def)
    with assms(5,6) show False by (simp add: new_records_Nil)
  qed
  obtain bad df where cb: "clean_batch raw = (bad, df)" by (cases "clean_batch raw")
  with assms(5) have D: "df_new_records df S = D" by simp
  from \<open>raw \<noteq> []\<close> assms(1-4,6,7) cb D show ?thesis
    by (simp add: process_batch_files_lambda_def Let_def s3_to_parquet_def)
qed

text \<open>
  C4. Empty-batch short-circuit: for every snapshot \<open>S\<close>, if the cleaned incoming batch is
  empty (the file has no rows, or cleaning drops them all) then the invocation returns,
  performs no write, and returns \<open>records_appended = 0\<close> with status
  \<open>success with warning\<close>.
\<close>

theorem empty_batch_short_circuit:
  assumes "event_records w = (b, k) # rest"
      and "environ w ''dest_bucket_path'' = Some dest"
      and "s3_read_csv w (s3_path b k) = Inr raw"
      and "snd (clean_batch raw) = []"
      and "athena_price_by_date w = Inr S"
  shows "\<exists>out. process_batch_files_lambda w = Inr out
            \<and> writes out = []
            \<and> map_of (response out) ''records_appended'' = Some (PyInt 0)
            \<and> map_of (response out) ''status'' = Some (PyStr ''success with warning'')"
proof -
  have "df_new_records (snd (clean_batch raw)) S = []"
    using assms(4) by (simp add: new_records_Nil)
  then have "process_batch_files_lambda w =
           Inr \<lparr>response = summary ''success with warning'' 0 (elapsed_us w), writes = []\<rparr>"
    using assms handler_no_new_records by blast
  then show ?thesis by (simp add: summary_def)
qed

text \<open>
  The theorem at a file whose only row has a price that is not a number: cleaning leaves
  nothing, and the handler returns the warning summary without a write.
\<close>

theorem empty_batch_short_circuit_witness:
  "snd (clean_batch [\<lparr>company = ''AAPL'', date = Parsable (2024, 1, 1),
                      close_price = NotNumeric ''abc''\<rparr>]) = []
   \<and> process_batch_files_lambda
      \<lparr>event_records = [(''staging'', ''20250125.csv'')],
       environ = [''dest_bucket_path'' \<mapsto> ''s3://lake/price_by_date/''],
       s3_read_csv = (\<lambda>path. Inr [\<lparr>company = ''AAPL'', date = Parsable (2024, 1, 1),
                                        close_price = NotNumeric ''abc''\<rparr>]),
       athena_price_by_date =
         Inr [\<lparr>pbd_company = ''AAPL'', pbd_close_date = (2024, 1, 1),
               pbd_close_price = Some 200, pbd_p_year = 2024\<rparr>],
       s3_to_parquet_error = None,
       elapsed_us = 2500000\<rparr>
     = Inr \<lparr>response = [(''status'', PyStr ''success with warning''),
                         (''records_appended'', PyInt 0),
                         (''duration_seconds'', PyFloat 2)],
            writes = []\<rparr>"
proof -
  let ?raw = "[\<lparr>company = ''AAPL'', date = Parsable (2024, 1, 1),
                 close_price = NotNumeric ''abc''\<rparr>]"
  let ?S = "[\<lparr>pbd_company = ''AAPL'', pbd_close_date = (2024, 1, 1),
               pbd_close_price = Some 200, pbd_p_year = 2024\<rparr>]"
  have c: "snd (clean_batch ?raw) = []"
    by (simp add: clean_batch_def clean_close_price_def clean_date_def isna_sum_def
        to_numeric_def Let_def)
  show ?thesis
    using empty_batch_short_circuit [where b = "''staging''" and k = "''20250125.csv''"
          and rest = "[]" and dest = "''s3://lake/price_by_date/''" and raw = ?raw and S = ?S
          and w = "\<lparr>event_records = [(''staging'', ''20250125.csv'')],
       environ = [''dest_bucket_path'' \<mapsto> ''s3://lake/price_by_date/''],
       s3_read_csv = (\<lambda>path. Inr ?raw),
       athena_price_by_date = Inr ?S,
       s3_to_parquet_error = None,
       elapsed_us = 2500000\<rparr>"]
    by (simp add: c process_batch_files_lambda_def Let_def clean_batch_def clean_close_price_def
        clean_date_def isna_sum_def to_numeric_def df_new_records_def merge_left_def
        summary_def round_seconds_def)
qed

subsection \<open>What an invocation writes, and the next invocation on the same file\<close>

lemma empty_file_returns_early:
  assumes "event_records w = (b, k) # rest"
      and "environ w ''dest_bucket_path'' = Some dest"
      and "s3_read_csv w (s3_path b k) = Inr []"
  shows "process_batch_files_lambda w =
           Inr \<lparr>response = summary ''success with warning'' 0 (elapsed_us w), writes = []\<rparr>"
  using assms by (simp add: process_batch_files_lambda_def)

lemma handler_writes_delta:
  assumes "event_records w = (b, k) # rest"
      and "environ w ''dest_bucket_path'' = Some dest"
      and "s3_read_csv w (s3_path b k) = Inr raw"
      and "athena_price_by_date w = Inr S"
      and "process_batch_files_lambda w = Inr out"
  shows "concat (map snd (writes out)) = map to_price_by_date (df_new_records (snd (clean_batch raw)) S)"
proof (cases "df_new_records (snd (clean_batch raw)) S = []")
  case True
  with assms(1-4) have "process_batch_files_lambda w =
      Inr \<lparr>response = summary ''success with warning'' 0 (elapsed_us w), writes = []\<rparr>"
    by (rule handler_no_new_records)
  with assms(5) True show ?thesis by auto
next
  case False
  obtain bad df where cb: "clean_batch raw = (bad, df)" by (cases "clean_batch raw")
  have "raw \<noteq> []"
  proof
    assume "raw = []"
    then have "snd (clean_batch raw) = []"
      by (simp add: clean_batch_def clean_close_price_def clean_date_def isna_sum_def)
    with False show False by (simp add: new_records_Nil)
  qed
  have ok: "s3_to_parquet_error w = None"
  proof (rule ccontr)
    assume "s3_to_parquet_error w \<noteq> None"
    then obtain e where "s3_to_parquet_error w = Some e" by auto
    with assms(1-4) cb False \<open>raw \<noteq> []\<close> have "process_batch_files_lambda w = Inl e"
      by (simp add: process_batch_files_lambda_def Let_def s3_to_parquet_def)
    with assms(5) show False by simp
  qed
  from assms(1-4) refl False ok
  have "process_batch_files_lambda w =
           Inr \<lparr>response = summary (if length raw = length (df_new_records (snd (clean_batch raw)) S)
                                     then ''success'' else ''success with warning'')
                                    (int (length (df_new_records (snd (clean_batch raw)) S)))
                                    (elapsed_us w),
                writes = [(dest, map to_price_by_date (df_new_records (snd (clean_batch raw)) S))]\<rparr>"
    by (rule handler_new_records)
  with assms(5) show ?thesis by auto
qed

text \<open>
  The same file handed to the handler again, with the rows of the first invocation now in
  the table: nothing is appended.
\<close>

lemma second_invocation_appends_nothing:
  assumes "event_records w = (b, k) # rest"
      and "environ w ''dest_bucket_path'' = Some dest"
      and "s3_read_csv w (s3_path b k) = Inr raw"
      and "athena_price_by_date w = Inr S"
      and "non_null_prices S"
      and "process_batch_files_lambda w = Inr out"
  shows "process_batch_files_lambda
           (w\<lparr>athena_price_by_date := Inr (S @ concat (map snd (writes out)))\<rparr>) =
           Inr \<lparr>response = summary ''success with warning'' 0 (elapsed_us w), writes = []\<rparr>"
proof -
  let ?B = "snd (clean_batch raw)"
  let ?w' = "w\<lparr>athena_price_by_date := Inr (S @ concat (map snd (writes out)))\<rparr>"
  have "S @ concat (map snd (writes out)) = store_after ?B S"
    using handler_writes_delta [OF assms(1-4,6)] by (simp add: store_after_def)
  then have a: "athena_price_by_date ?w' = Inr (store_after ?B S)" by simp
  have d: "df_new_records ?B (store_after ?B S) = []"
    using assms(5) by (rule delta_after_append_empty)
  have "process_batch_files_lambda ?w' =
          Inr \<lparr>response = summary ''success with warning'' 0 (elapsed_us ?w'), writes = []\<rparr>"
    using assms(1-3) a d
    by (intro handler_no_new_records [where b = b and k = k and rest = rest and dest = dest
          and raw = raw and S = "store_after ?B S"]) simp_all
  then show ?thesis by simp
qed

text \<open>The two end-to-end scenarios of the specification.\<close>

lemma scenario_new_row:
  "process_batch_files_lambda
     \<lparr>event_records = [(''staging'', ''20250125.csv'')],
      environ = [''dest_bucket_path'' \<mapsto> ''s3://lake/price_by_date/''],
      s3_read_csv = (\<lambda>path. Inr [\<lparr>company = ''AAPL'', date = Parsable (2024, 1, 1),
                                       close_price = Numeric 200\<rparr>]),
      athena_price_by_date = Inr [],
      s3_to_parquet_error = None,
      elapsed_us = 2500000\<rparr>
   = Inr \<lparr>response = [(''status'', PyStr ''success''), (''records_appended'', PyInt 1),
                       (''duration_seconds'', PyFloat 2)],
          writes = [(''s3://lake/price_by_date/'',
                     [\<lparr>pbd_company = ''AAPL'', pbd_close_date = (2024, 1, 1),
                       pbd_close_price = Some 200, pbd_p_year = 2024\<rparr>])]\<rparr>"
  by (simp add: process_batch_files_lambda_def Let_def clean_batch_def clean_close_price_def
      clean_date_def isna_sum_def to_numeric_def to_datetime_date_def df_new_records_def
      merge_left_def close_price_y_def to_price_by_date_def year_def s3_to_parquet_def
      summary_def round_seconds_def)

lemma scenario_known_row:
  "process_batch_files_lambda
     \<lparr>event_records = [(''staging'', ''20250125.csv'')],
      environ = [''dest_bucket_path'' \<mapsto> ''s3://lake/price_by_date/''],
      s3_read_csv = (\<lambda>path. Inr [\<lparr>company = ''AAPL'', date = Parsable (2024, 1, 1),
                                       close_price = Numeric 200\<rparr>]),
      athena_price_by_date = Inr [\<lparr>pbd_company = ''AAPL'', pbd_close_date = (2024, 1, 1),
                                   pbd_close_price = Some 200, pbd_p_year = 2024\<rparr>],
      s3_to_parquet_error = None,
      elapsed_us = 2500000\<rparr>
   = Inr \<lparr>response = [(''status'', PyStr ''success with warning''),
                       (''records_appended'', PyInt 0), (''duration_seconds'', PyFloat 2)],
          writes = []\<rparr>"
  by (simp add: process_batch_files_lambda_def Let_def clean_batch_def clean_close_price_def
      clean_date_def isna_sum_def to_numeric_def to_datetime_date_def df_new_records_def
      merge_left_def matches_def close_price_y_def summary_def round_seconds_def)

section \<open>Properties of the latest-prices query\<close>

lemma set_insert_desc: "set (insert_desc r xs) = insert r (set xs)"
  by (induction xs) auto

lemma sorted_insert_desc:
  "sorted_wrt (\<lambda>a b. sph_produced_at a \<ge> sph_produced_at b) xs
   \<Longrightarrow> sorted_wrt (\<lambda>a b. sph_produced_at a \<ge> sph_produced_at b) (insert_desc r xs)"
  by (induction xs) (auto simp: set_insert_desc)

lemma set_order_by: "set (order_by_produced_at_desc g) = set g"
  by (induction g) (simp_all add: order_by_produced_at_desc_def set_insert_desc)

lemma sorted_order_by:
  "sorted_wrt (\<lambda>a b. sph_produced_at a \<ge> sph_produced_at b) (order_by_produced_at_desc g)"
  by (induction g) (simp_all add: order_by_produced_at_desc_def sorted_insert_desc)

lemma hd_sorted_desc_greatest:
  assumes "sorted_wrt (\<lambda>a b. sph_produced_at a \<ge> sph_produced_at b) xs" and "y \<in> set xs"
  shows "sph_produced_at y \<le> sph_produced_at (hd xs)"
  using assms by (cases xs) auto

lemma row_number_Cons:
  "row_number (x # rest) = (x, Suc 0) # zip rest [Suc (Suc 0) ..< Suc (Suc (length rest))]"
proof -
  have "[Suc 0 ..< Suc (Suc (length rest))] = Suc 0 # [Suc (Suc 0) ..< Suc (Suc (length rest))]"
    by (rule upt_conv_Cons) simp
  then show ?thesis
    unfolding row_number_def by (simp del: upt_Suc)
qed

lemma rank_one_of_row_number:
  "filter (\<lambda>(r, ranking). ranking = 1) (row_number xs)
     = (case xs of [] \<Rightarrow> [] | x # rest \<Rightarrow> [(x, 1)])"
proof (cases xs)
  case Nil
  then show ?thesis by (simp add: row_number_def)
next
  case (Cons x rest)
  have "k \<noteq> Suc 0" if "(r, k) \<in> set (zip rest [Suc (Suc 0) ..< Suc (Suc (length rest))])" for r k
  proof -
    from that have "k \<in> set [Suc (Suc 0) ..< Suc (Suc (length rest))]" by (rule set_zip_rightD)
    then show ?thesis by (simp del: upt_Suc)
  qed
  then have "filter (\<lambda>(r, ranking). ranking = Suc 0)
               (zip rest [Suc (Suc 0) ..< Suc (Suc (length rest))]) = []"
    by (auto simp: filter_empty_conv simp del: upt_Suc)
  with Cons show ?thesis by (simp add: row_number_Cons del: upt_Suc)
qed

text \<open>Every group has a row, and the row ranked first is the head of the ordered group.\<close>

lemma groups_nonempty:
  "g \<in> set (partition_by_symbol rows) \<Longrightarrow> g \<noteq> []"
  by (auto simp: partition_by_symbol_def filter_empty_conv)

lemma latest_of_group:
  assumes "g \<noteq> []"
  shows "map (\<lambda>(r, ranking). select_columns r)
           (filter (\<lambda>(r, ranking). ranking = 1) (row_number (order_by_produced_at_desc g)))
         = [select_columns (hd (order_by_produced_at_desc g))]"
proof -
  from assms have "order_by_produced_at_desc g \<noteq> []"
    using set_order_by [of g] by (metis set_empty)
  then obtain x rest where "order_by_produced_at_desc g = x # rest"
    by (cases "order_by_produced_at_desc g") auto
  then show ?thesis using rank_one_of_row_number [of "x # rest"] by simp
qed

lemma latest_prices_query_groups:
  "latest_prices_query history =
     map (\<lambda>g. select_columns (hd (order_by_produced_at_desc g)))
         (partition_by_symbol (scanned history))"
proof -
  have "map (\<lambda>(r, ranking). select_columns r)
          (filter (\<lambda>(r, ranking). ranking = 1)
             (concat (map (\<lambda>g. row_number (order_by_produced_at_desc g)) gs)))
        = map (\<lambda>g. select_columns (hd (order_by_produced_at_desc g))) gs"
    if "\<forall>g \<in> set gs. g \<noteq> []" for gs
    using that
  proof (induction gs)
    case Nil
    show ?case by simp
  next
    case (Cons g gs)
    then show ?case using latest_of_group [of g] by simp
  qed
  then show ?thesis
    unfolding latest_prices_query_def ranked_def using groups_nonempty by blast
qed

lemma hd_group_in_group:
  assumes "g \<noteq> []"
  shows "hd (order_by_produced_at_desc g) \<in> set g"
proof -
  from assms have "order_by_produced_at_desc g \<noteq> []"
    using set_order_by [of g] by (metis set_empty)
  then have "hd (order_by_produced_at_desc g) \<in> set (order_by_produced_at_desc g)"
    by (rule hd_in_set)
  then show ?thesis by (simp add: set_order_by)
qed

lemma symbols_of_latest_prices_query:
  "map symbol (latest_prices_query history) = remdups (map sph_symbol (scanned history))"
proof -
  let ?rows = "scanned history"
  have "symbol (select_columns (hd (order_by_produced_at_desc (filter (\<lambda>r. sph_symbol r = s) ?rows)))) = s"
    if "s \<in> set (remdups (map sph_symbol ?rows))" for s
  proof -
    from that have "filter (\<lambda>r. sph_symbol r = s) ?rows \<noteq> []"
      by (auto simp: filter_empty_conv)
    then have "hd (order_by_produced_at_desc (filter (\<lambda>r. sph_symbol r = s) ?rows))
                 \<in> set (filter (\<lambda>r. sph_symbol r = s) ?rows)"
      by (rule hd_group_in_group)
    then show ?thesis by (simp add: select_columns_def)
  qed
  then have "map (\<lambda>s. symbol (select_columns (hd (order_by_produced_at_desc
                 (filter (\<lambda>r. sph_symbol r = s) ?rows)))))
               (remdups (map sph_symbol ?rows))
             = remdups (map sph_symbol ?rows)"
    by (intro map_idI) blast
  then show ?thesis
    by (simp add: latest_prices_query_groups partition_by_symbol_def o_def)
qed

lemma set_scanned:
  "set (scanned history) = {r \<in> set history. sph_p_year r = year (fst (sph_produced_at r))}"
  by (auto simp: scanned_def)

lemma latest_rows_are_latest:
  assumes "v \<in> set (latest_prices_query history)"
  shows "is_latest_of history v"
proof -
  let ?rows = "scanned history"
  from assms obtain s where s: "s \<in> set (map sph_symbol ?rows)"
    and v: "v = select_columns (hd (order_by_produced_at_desc (filter (\<lambda>r. sph_symbol r = s) ?rows)))"
    by (auto simp: latest_prices_query_groups partition_by_symbol_def)
  let ?g = "filter (\<lambda>r. sph_symbol r = s) ?rows"
  let ?top = "hd (order_by_produced_at_desc ?g)"
  from s have ne: "?g \<noteq> []" by (auto simp: filter_empty_conv)
  then have top: "?top \<in> set ?g" by (rule hd_group_in_group)
  then have sym: "symbol v = s" and in_rows: "?top \<in> set ?rows"
    by (simp_all add: v select_columns_def)
  have grp: "{r \<in> set history. sph_p_year r = year (fst (sph_produced_at r))
                               \<and> sph_symbol r = symbol v} = set ?g"
    using sym by (auto simp: set_scanned)
  have "sph_produced_at y \<le> sph_produced_at ?top" if "y \<in> set ?g" for y
    using hd_sorted_desc_greatest [OF sorted_order_by, of y ?g] that by (simp add: set_order_by)
  then have "Max (sph_produced_at ` set ?g) = sph_produced_at ?top"
    using top by (intro Max_eqI) auto
  moreover have "produced_at v = sph_produced_at ?top"
    by (simp add: v select_columns_def)
  ultimately have mx: "produced_at v =
      Max (sph_produced_at ` {r \<in> set history. sph_p_year r = year (fst (sph_produced_at r))
                                               \<and> sph_symbol r = symbol v})"
    by (simp only: grp)
  from in_rows have "?top \<in> set history" "sph_p_year ?top = year (fst (sph_produced_at ?top))"
    by (simp_all add: set_scanned)
  moreover have "symbol v = sph_symbol ?top" "price v = sph_price ?top"
      "produced_at v = sph_produced_at ?top"
    by (simp_all add: v select_columns_def)
  ultimately have "\<exists>r \<in> set history.
        sph_p_year r = year (fst (sph_produced_at r))
        \<and> symbol v = sph_symbol r \<and> price v = sph_price r \<and> produced_at v = sph_produced_at r"
    by blast
  with mx show ?thesis unfolding is_latest_of_def by blast
qed

text \<open>
  C3. Latest-view correctness: for every state of the streaming history table, the view the
  query computes has exactly one row for each symbol that occurs among the rows of the
  table with \<open>p_year = year(produced_at)\<close> and for no other symbol; each row of the view
  has the symbol, price and \<open>produced_at\<close> of such a row, and its \<open>produced_at\<close> is the
  maximum \<open>produced_at\<close> over the rows of the table with \<open>p_year = year(produced_at)\<close> and
  its symbol.
\<close>

theorem latest_view_correct:
  "distinct (map symbol (latest_prices_query history))
   \<and> set (map symbol (latest_prices_query history))
       = sph_symbol ` {r \<in> set history. sph_p_year r = year (fst (sph_produced_at r))}
   \<and> list_all (is_latest_of history) (latest_prices_query history)"
proof (intro conjI)
  show "distinct (map symbol (latest_prices_query history))"
    by (simp add: symbols_of_latest_prices_query)
  show "set (map symbol (latest_prices_query history))
       = sph_symbol ` {r \<in> set history. sph_p_year r = year (fst (sph_produced_at r))}"
    by (simp add: symbols_of_latest_prices_query set_scanned)
  show "list_all (is_latest_of history) (latest_prices_query history)"
    using latest_rows_are_latest [of _ history] by (simp add: list_all_iff)
qed

text \<open>
  The query at a history of four rows: the later of the two scanned AAPL rows and the MSFT
  row are selected; the AAPL row filed under a year that is not its own is not scanned.
\<close>

lemma latest_prices_query_example:
  "latest_prices_query
     [\<lparr>sph_symbol = ''AAPL'', sph_price = 221, sph_produced_at = ((2025, 1, 25), 36000000000),
       sph_etl_loading_ts = ((2025, 1, 25), 36060000000), sph_p_year = 2025\<rparr>,
      \<lparr>sph_symbol = ''MSFT'', sph_price = 440, sph_produced_at = ((2025, 1, 25), 36000000000),
       sph_etl_loading_ts = ((2025, 1, 25), 36060000000), sph_p_year = 2025\<rparr>,
      \<lparr>sph_symbol = ''AAPL'', sph_price = 225, sph_produced_at = ((2025, 1, 25), 36005000000),
       sph_etl_loading_ts = ((2025, 1, 25), 36060000000), sph_p_year = 2025\<rparr>,
      \<lparr>sph_symbol = ''AAPL'', sph_price = 230, sph_produced_at = ((2026, 1, 1), 0),
       sph_etl_loading_ts = ((2025, 1, 25), 36060000000), sph_p_year = 2025\<rparr>]
   = [\<lparr>symbol = ''MSFT'', price = 440, produced_at = ((2025, 1, 25), 36000000000)\<rparr>,
      \<lparr>symbol = ''AAPL'', price = 225, produced_at = ((2025, 1, 25), 36005000000)\<rparr>]"
  by (simp add: latest_prices_query_def ranked_def scanned_def partition_by_symbol_def
      order_by_produced_at_desc_def row_number_def year_def select_columns_def)

section \<open>Properties of the generators\<close>

subsection \<open>The price bounds of the symbol table\<close>

text \<open>
  Evaluating the bit length of a numeral, and with it the double-precision products: for
  every reference price of the table the two bounds the generators compute in floating
  point are the exact floors of nine and of eleven tenths of the reference.
\<close>

lemma bitlen_zero: "bitlen 0 = 0"
  by (simp add: bitlen.simps)

lemma bitlen_pos: "0 < n \<Longrightarrow> bitlen n = Suc (bitlen (n div 2))"
  by (subst bitlen.simps) simp

lemma price_in_range_iff: "price_in_range ref p \<longleftrightarrow> (9 * ref) div 10 \<le> p \<and> p < (11 * ref) div 10"
proof -
  have "\<lfloor>9 / 10 * real_of_int ref\<rfloor> = (9 * ref) div 10"
    using floor_divide_of_int_eq [of "9 * ref" 10, where ?'a = real] by simp
  moreover have "\<lfloor>11 / 10 * real_of_int ref\<rfloor> = (11 * ref) div 10"
    using floor_divide_of_int_eq [of "11 * ref" 10, where ?'a = real] by simp
  ultimately show ?thesis by (simp add: price_in_range_def)
qed

lemma bounds_table:
  "list_all (\<lambda>(k, current_price).
       min_price current_price = (9 * current_price) div 10
     \<and> max_price current_price = (11 * current_price) div 10) companies_price"
  by (simp add: companies_price_def min_price_def max_price_def int_times_double_def
      int_of_double_def lit_0_9_def lit_1_1_def bitlen_zero bitlen_pos Let_def)


lemma randrange_range:
  assumes "randrange lo hi d = Inr p"
  shows "lo \<le> p \<and> p < hi"
proof -
  from assms have lt: "lo < hi" and p: "p = lo + int (d mod nat (hi - lo))"
    by (auto simp: randrange_def split: if_splits)
  from lt have "d mod nat (hi - lo) < nat (hi - lo)" by simp
  with lt p show ?thesis by linarith
qed

lemma randrange_returns:
  "lo < hi \<Longrightarrow> \<exists>p. randrange lo hi d = Inr p"
  by (simp add: randrange_def)

lemma randrange_one_draw_per_value:
  assumes "lo \<le> p" and "p < hi"
  shows "\<exists>!d. d < nat (hi - lo) \<and> randrange lo hi d = Inr p"
proof
  show "nat (p - lo) < nat (hi - lo) \<and> randrange lo hi (nat (p - lo)) = Inr p"
    using assms by (simp add: randrange_def)
next
  fix d
  assume "d < nat (hi - lo) \<and> randrange lo hi d = Inr p"
  then show "d = nat (p - lo)"
    by (auto simp: randrange_def split: if_splits)
qed

lemma bounds_of_entry:
  assumes "(k, c) \<in> set companies_price"
  shows "min_price c = (9 * c) div 10" and "max_price c = (11 * c) div 10"
  using assms bounds_table by (auto simp: list_all_iff)

lemma range_nonempty_table:
  "list_all (\<lambda>(k, c). (9 * c) div 10 < (11 * c) div 10) companies_price"
  by (simp add: companies_price_def)

lemma range_nonempty:
  assumes "(k, c) \<in> set companies_price"
  shows "min_price c < max_price c"
  using assms range_nonempty_table bounds_of_entry [OF assms] by (auto simp: list_all_iff)

lemma map_of_companies_price:
  assumes "(k, c) \<in> set companies_price"
  shows "map_of companies_price k = Some c"
proof -
  have d: "distinct (map fst companies_price)" by (simp add: companies_price_def)
  show ?thesis using map_of_is_SomeI [OF d assms] .
qed

text \<open>The loop over any part of the table returns one record for each entry, in range.\<close>

lemma stock_data_loop_returns:
  assumes "set entries \<subseteq> set companies_price"
  shows "\<exists>recs. stock_data_loop rnd clk i entries = Inr recs
           \<and> length recs = length entries
           \<and> list_all tick_in_range recs
           \<and> (\<forall>j < length recs. produced_at (recs ! j) = strftime_seconds (clk (i + j)))"
  using assms
proof (induction entries arbitrary: i)
  case Nil
  show ?case by simp
next
  case (Cons e entries)
  obtain k c where e: "e = (k, c)" by (cases e)
  with Cons.prems have mem: "(k, c) \<in> set companies_price" and rest: "set entries \<subseteq> set companies_price"
    by auto
  obtain p where p: "randrange (min_price c) (max_price c) (rnd i) = Inr p"
    using randrange_returns [OF range_nonempty [OF mem]] by blast
  then have "min_price c \<le> p \<and> p < max_price c" by (rule randrange_range)
  then have pr: "price_in_range c p"
    using bounds_of_entry [OF mem] by (simp add: price_in_range_iff)
  from Cons.IH [OF rest, of "Suc i"] obtain recs where
    recs: "stock_data_loop rnd clk (Suc i) entries = Inr recs"
          "length recs = length entries" "list_all tick_in_range recs"
          "\<forall>j < length recs. produced_at (recs ! j) = strftime_seconds (clk (Suc i + j))"
    by blast
  let ?r = "\<lparr>symbol = k, price = p, produced_at = strftime_seconds (clk i)\<rparr>"
  have run: "stock_data_loop rnd clk i (e # entries) = Inr (?r # recs)"
    by (simp add: e p recs(1))
  have "tick_in_range ?r"
    by (simp add: tick_in_range_def map_of_companies_price [OF mem] pr)
  moreover have "produced_at ((?r # recs) ! j) = strftime_seconds (clk (i + j))"
    if "j < length (?r # recs)" for j
    using that recs(4) by (cases j) auto
  ultimately show ?case using run recs(2,3) by auto
qed

lemma sample_loop_subset:
  assumes "length pool = n" and "i + todo \<le> n"
  shows "set (sample_loop pool n i todo rnd pos) \<subseteq> set pool
       \<and> length (sample_loop pool n i todo rnd pos) = todo"
  using assms
proof (induction todo arbitrary: pool i pos)
  case 0
  show ?case by simp
next
  case (Suc todo)
  let ?j = "rnd pos mod (n - i)"
  let ?pool' = "pool[?j := pool ! (n - i - 1)]"
  from Suc.prems have pos: "0 < n - i" by simp
  then have j: "?j < n - i" by simp
  with Suc.prems pos have jn: "?j < length pool" and ln: "n - i - 1 < length pool" by linarith+
  have sub: "set ?pool' \<subseteq> set pool"
    using ln by (metis nth_mem set_update_subsetI subset_refl)
  have "length ?pool' = n" using Suc.prems by simp
  moreover have "Suc i + todo \<le> n" using Suc.prems by simp
  ultimately have IH: "set (sample_loop ?pool' n (Suc i) todo rnd (Suc pos)) \<subseteq> set ?pool'
      \<and> length (sample_loop ?pool' n (Suc i) todo rnd (Suc pos)) = todo"
    by (rule Suc.IH)
  have "pool ! ?j \<in> set pool" using jn by simp
  with IH sub show ?case by (auto simp: Let_def)
qed

lemma sample_returns:
  assumes "0 \<le> k" and "k \<le> int (length population)"
  shows "\<exists>chosen. sample population k rnd pos = Inr chosen
           \<and> set chosen \<subseteq> set population \<and> int (length chosen) = k"
  using assms sample_loop_subset [of population "length population" 0 "nat k" rnd pos]
  by (auto simp: sample_def)

lemma create_stock_market_data_returns:
  "\<exists>recs. create_stock_market_data rnd clk = Inr recs \<and> list_all tick_in_range recs
          \<and> 5 \<le> length recs \<and> length recs < 16
          \<and> list_all (\<lambda>r. \<exists>i < 16. produced_at r = strftime_seconds (clk i)) recs"
proof -
  obtain all_recs where a: "all_stock_data rnd clk = Inr all_recs"
      "length all_recs = length companies_price" "list_all tick_in_range all_recs"
      "\<forall>j < length all_recs. produced_at (all_recs ! j) = strftime_seconds (clk (0 + j))"
    using stock_data_loop_returns [of companies_price rnd clk 0]
    unfolding all_stock_data_def by auto
  have len: "length companies_price = 16" by (simp add: companies_price_def)
  obtain k where k: "randrange 5 16 (rnd 16) = Inr k"
    using randrange_returns [of 5 16] by auto
  then have kr: "5 \<le> k \<and> k < 16" by (rule randrange_range)
  then obtain chosen where c: "sample all_recs k rnd 17 = Inr chosen"
      "set chosen \<subseteq> set all_recs" "int (length chosen) = k"
    using sample_returns [of k all_recs rnd 17] a(2) len by auto
  have "list_all tick_in_range chosen"
    using a(3) c(2) by (auto simp: list_all_iff)
  moreover have "\<exists>i < 16. produced_at r = strftime_seconds (clk i)" if "r \<in> set chosen" for r
  proof -
    from that c(2) obtain j where "j < length all_recs" "r = all_recs ! j"
      by (metis in_set_conv_nth subsetD)
    with a(2,4) len show ?thesis by auto
  qed
  then have "list_all (\<lambda>r. \<exists>i < 16. produced_at r = strftime_seconds (clk i)) chosen"
    by (simp add: list_all_iff)
  moreover have "create_stock_market_data rnd clk = Inr chosen"
    by (simp add: create_stock_market_data_def a(1) len k c(1))
  ultimately show ?thesis using c(3) kr by auto
qed

subsection \<open>The batch generator returns, with every price in range and one date\<close>

lemma days_diff_integer_value: "days_diff_integer = 1095"
  by (simp add: days_diff_integer_def toordinal_def date_1_def date_2_def days_before_year_def
      days_before_month_def days_in_month_def is_leap_def upt_rec)

lemma close_price_loop_returns:
  assumes "set entries \<subseteq> set companies_price"
  shows "\<exists>rows. close_price_loop rnd i d
                  (map (\<lambda>(k, current_price). (k, min_price current_price, max_price current_price))
                       entries) = Inr rows
           \<and> map company rows = map fst entries
           \<and> list_all row_in_range rows
           \<and> list_all (\<lambda>r. date r = d) rows"
  using assms
proof (induction entries arbitrary: i)
  case Nil
  show ?case by simp
next
  case (Cons e entries)
  obtain k c where e: "e = (k, c)" by (cases e)
  with Cons.prems have mem: "(k, c) \<in> set companies_price" and rest: "set entries \<subseteq> set companies_price"
    by auto
  obtain p where p: "randrange (min_price c) (max_price c) (rnd i) = Inr p"
    using randrange_returns [OF range_nonempty [OF mem]] by blast
  then have "min_price c \<le> p \<and> p < max_price c" by (rule randrange_range)
  then have pr: "price_in_range c p"
    using bounds_of_entry [OF mem] by (simp add: price_in_range_iff)
  from Cons.IH [OF rest, of "Suc i"] obtain rows where
    rows: "close_price_loop rnd (Suc i) d
             (map (\<lambda>(k, current_price). (k, min_price current_price, max_price current_price))
                  entries) = Inr rows"
          "map company rows = map fst entries" "list_all row_in_range rows"
          "list_all (\<lambda>r. date r = d) rows"
    by blast
  let ?r = "\<lparr>company = k, date = d, close_price = p\<rparr>"
  have "row_in_range ?r"
    by (simp add: row_in_range_def map_of_companies_price [OF mem] pr)
  then show ?case using rows by (simp add: e p)
qed

lemma generate_stock_batch_data_returns:
  assumes "g_environ w ''dest_bucket_path'' = Some dest" and "s3_to_csv_error w = None"
  shows "\<exists>out d. generate_stock_batch_data w = Inr out
           \<and> map company (csv_rows out) = map fst companies_price
           \<and> list_all row_in_range (csv_rows out)
           \<and> list_all (\<lambda>r. date r = d) (csv_rows out)"
proof -
  obtain n where n: "randrange 0 days_diff_integer (g_rand w 0) = Inr n"
    using randrange_returns [of 0 days_diff_integer] by (auto simp: days_diff_integer_value)
  let ?d = "strftime_date (add_days date_1 (nat n))"
  obtain rows where rows:
      "close_price_loop (g_rand w) 1 ?d
         (map (\<lambda>(k, current_price). (k, min_price current_price, max_price current_price))
              companies_price) = Inr rows"
      "map company rows = map fst companies_price" "list_all row_in_range rows"
      "list_all (\<lambda>r. date r = ?d) rows"
    using close_price_loop_returns [of companies_price "g_rand w" 1 ?d] by auto
  have "generate_stock_batch_data w =
          Inr \<lparr>csv_path = dest @ strftime_compact (today w) @ ''.csv'', csv_rows = rows\<rparr>"
    using assms rows(1) by (simp add: generate_stock_batch_data_def n Let_def)
  with rows show ?thesis by auto
qed

lemma bounds_are_floors:
  "list_all (\<lambda>(k, ref). min_price ref = \<lfloor>9 / 10 * real_of_int ref\<rfloor>
                       \<and> max_price ref = \<lfloor>11 / 10 * real_of_int ref\<rfloor>) companies_price"
proof -
  have "\<lfloor>9 / 10 * real_of_int ref\<rfloor> = (9 * ref) div 10" for ref
    using floor_divide_of_int_eq [of "9 * ref" 10, where ?'a = real] by simp
  moreover have "\<lfloor>11 / 10 * real_of_int ref\<rfloor> = (11 * ref) div 10" for ref
    using floor_divide_of_int_eq [of "11 * ref" 10, where ?'a = real] by simp
  ultimately show ?thesis using bounds_table by simp
qed

subsection \<open>The generated price as a function of the choice made for it\<close>

lemma stock_data_loop_nth:
  assumes "stock_data_loop rnd clk i entries = Inr recs" and "j < length entries"
  shows "symbol (recs ! j) = fst (entries ! j)
       \<and> randrange (min_price (snd (entries ! j))) (max_price (snd (entries ! j))) (rnd (i + j))
           = Inr (price (recs ! j))"
  using assms
proof (induction entries arbitrary: i recs j)
  case Nil
  then show ?case by simp
next
  case (Cons e entries)
  obtain k c where e: "e = (k, c)" by (cases e)
  from Cons.prems(1) obtain p tl where
    p: "randrange (min_price c) (max_price c) (rnd i) = Inr p" and
    tl: "stock_data_loop rnd clk (Suc i) entries = Inr tl" and
    recs: "recs = \<lparr>symbol = k, price = p, produced_at = strftime_seconds (clk i)\<rparr> # tl"
    by (auto simp: e Let_def split: sum.splits)
  show ?case
  proof (cases j)
    case 0
    then show ?thesis by (simp add: e recs p)
  next
    case (Suc j')
    with Cons.prems(2) have "j' < length entries" by simp
    from Cons.IH [OF tl this] Suc show ?thesis by (simp add: recs)
  qed
qed

lemma close_price_loop_nth:
  assumes "close_price_loop rnd i d bounds = Inr rows" and "j < length bounds"
  shows "company (rows ! j) = fst (bounds ! j)
       \<and> randrange (fst (snd (bounds ! j))) (snd (snd (bounds ! j))) (rnd (i + j))
           = Inr (close_price (rows ! j))"
  using assms
proof (induction bounds arbitrary: i rows j)
  case Nil
  then show ?case by simp
next
  case (Cons e bounds)
  obtain k lo hi where e: "e = (k, lo, hi)" by (cases e)
  from Cons.prems(1) obtain p tl where
    p: "randrange lo hi (rnd i) = Inr p" and
    tl: "close_price_loop rnd (Suc i) d bounds = Inr tl" and
    rows: "rows = \<lparr>company = k, date = d, close_price = p\<rparr> # tl"
    by (auto simp: e split: sum.splits)
  show ?case
  proof (cases j)
    case 0
    then show ?thesis by (simp add: e rows p)
  next
    case (Suc j')
    with Cons.prems(2) have "j' < length bounds" by simp
    from Cons.IH [OF tl this] Suc show ?thesis by (simp add: rows)
  qed
qed

text \<open>The price of the symbol at a position of the table, as a function of the choice made for it.\<close>

lemma all_stock_data_price_iff:
  assumes "j < length companies_price"
  shows "(\<exists>recs. all_stock_data (rnd(j := d)) clk = Inr recs
             \<and> symbol (recs ! j) = fst (companies_price ! j) \<and> price (recs ! j) = p)
         \<longleftrightarrow> randrange (min_price (snd (companies_price ! j)))
                       (max_price (snd (companies_price ! j))) d = Inr p"
proof -
  obtain recs where recs: "all_stock_data (rnd(j := d)) clk = Inr recs"
    using stock_data_loop_returns [of companies_price "rnd(j := d)" clk 0]
    unfolding all_stock_data_def by auto
  then have "stock_data_loop (rnd(j := d)) clk 0 companies_price = Inr recs"
    by (simp add: all_stock_data_def)
  from stock_data_loop_nth [OF this assms]
  have nth: "symbol (recs ! j) = fst (companies_price ! j)"
    "randrange (min_price (snd (companies_price ! j))) (max_price (snd (companies_price ! j))) d
       = Inr (price (recs ! j))"
    by simp_all
  show ?thesis using recs nth by auto
qed

lemma generate_rows:
  assumes "generate_stock_batch_data w = Inr out"
  shows "\<exists>d. close_price_loop (g_rand w) 1 d
               (map (\<lambda>(k, current_price). (k, min_price current_price, max_price current_price))
                    companies_price) = Inr (csv_rows out)"
  using assms
  by (auto simp: generate_stock_batch_data_def Let_def split: sum.splits option.splits)

lemma generate_price_iff:
  assumes "g_environ w ''dest_bucket_path'' = Some dest" and "s3_to_csv_error w = None"
      and "j < length companies_price"
  shows "(\<exists>out. generate_stock_batch_data (w\<lparr>g_rand := (g_rand w)(Suc j := d)\<rparr>) = Inr out
             \<and> company (csv_rows out ! j) = fst (companies_price ! j)
             \<and> close_price (csv_rows out ! j) = p)
         \<longleftrightarrow> randrange (min_price (snd (companies_price ! j)))
                       (max_price (snd (companies_price ! j))) d = Inr p"
proof -
  let ?w = "w\<lparr>g_rand := (g_rand w)(Suc j := d)\<rparr>"
  let ?bounds = "map (\<lambda>(k, current_price). (k, min_price current_price, max_price current_price))
                    companies_price"
  have "g_environ ?w ''dest_bucket_path'' = Some dest" "s3_to_csv_error ?w = None"
    using assms(1,2) by simp_all
  then obtain out where out: "generate_stock_batch_data ?w = Inr out"
    using generate_stock_batch_data_returns [of ?w dest] by blast
  then obtain dt where "close_price_loop (g_rand ?w) 1 dt ?bounds = Inr (csv_rows out)"
    using generate_rows by blast
  moreover have "j < length ?bounds" using assms(3) by simp
  ultimately have
    "company (csv_rows out ! j) = fst (?bounds ! j)
     \<and> randrange (fst (snd (?bounds ! j))) (snd (snd (?bounds ! j))) (g_rand ?w (1 + j))
         = Inr (close_price (csv_rows out ! j))"
    by (rule close_price_loop_nth)
  moreover have "?bounds ! j = (fst (companies_price ! j), min_price (snd (companies_price ! j)),
                                max_price (snd (companies_price ! j)))"
    using assms(3) by (simp add: case_prod_beta)
  ultimately have nth: "company (csv_rows out ! j) = fst (companies_price ! j)"
    "randrange (min_price (snd (companies_price ! j))) (max_price (snd (companies_price ! j))) d
       = Inr (close_price (csv_rows out ! j))"
    by simp_all
  show ?thesis using out nth by auto
qed

lemma one_choice_per_price:
  assumes "j < length companies_price" and "price_in_range (snd (companies_price ! j)) p"
  shows "\<exists>!d. d < nat (\<lfloor>11 / 10 * real_of_int (snd (companies_price ! j))\<rfloor>
                       - \<lfloor>9 / 10 * real_of_int (snd (companies_price ! j))\<rfloor>)
              \<and> randrange (min_price (snd (companies_price ! j)))
                           (max_price (snd (companies_price ! j))) d = Inr p"
proof -
  let ?ref = "snd (companies_price ! j)"
  have mem: "(fst (companies_price ! j), ?ref) \<in> set companies_price"
    using assms(1) by simp
  have fl: "min_price ?ref = \<lfloor>9 / 10 * real_of_int ?ref\<rfloor>"
           "max_price ?ref = \<lfloor>11 / 10 * real_of_int ?ref\<rfloor>"
    using bounds_are_floors mem by (auto simp: list_all_iff)
  from assms(2) have "min_price ?ref \<le> p" "p < max_price ?ref"
    by (simp_all add: fl price_in_range_def)
  then have "\<exists>!d. d < nat (max_price ?ref - min_price ?ref)
              \<and> randrange (min_price ?ref) (max_price ?ref) d = Inr p"
    by (rule randrange_one_draw_per_value)
  then show ?thesis by (simp only: fl)
qed
subsection \<open>The generators at concrete choices and clock readings\<close>

text \<open>Rules that evaluate the formatting and the loops on numerals.\<close>

lemma decimal_digit: "n < 10 \<Longrightarrow> decimal n = [''0123456789'' ! n]"
  by (subst decimal.simps) simp

lemma decimal_more: "10 \<le> n \<Longrightarrow> decimal n = decimal (n div 10) @ [''0123456789'' ! (n mod 10)]"
  by (subst decimal.simps) simp

lemma bounds_values:
  "map (\<lambda>(k, c). (k, min_price c, max_price c)) companies_price =
     [(''NVDA'', 128, 157), (''AAPL'', 200, 245), (''MSFT'', 399, 488), (''AMZN'', 210, 257),
      (''GOOGL'', 180, 220), (''META'', 582, 711), (''TSLA'', 366, 447), (''WMT'', 85, 104),
      (''JPM'', 238, 291), (''V'', 297, 363), (''ORCL'', 165, 202), (''MA'', 441, 539),
      (''XOM'', 98, 119), (''NFLX'', 880, 1075), (''PG'', 147, 180), (''SAP'', 248, 303)]"
proof -
  have "map (\<lambda>(k, c). (k, min_price c, max_price c)) companies_price
          = map (\<lambda>(k, c). (k, (9 * c) div 10, (11 * c) div 10)) companies_price"
    using bounds_table by (auto simp: list_all_iff)
  then show ?thesis by (simp add: companies_price_def)
qed

lemma stock_data_loop_step:
  "stock_data_loop rnd clk i ((k, current_price) # rest) =
     (case randrange (min_price current_price) (max_price current_price) (rnd i) of
        Inl e \<Rightarrow> Inl e
      | Inr new_price \<Rightarrow>
          (case stock_data_loop rnd clk (i + 1) rest of
             Inl e \<Rightarrow> Inl e
           | Inr stock_data \<Rightarrow>
               Inr (\<lparr>symbol = k, price = new_price, produced_at = strftime_seconds (clk i)\<rparr>
                    # stock_data)))"
  by (cases "randrange (min_price current_price) (max_price current_price) (rnd i)")
     (simp_all add: Let_def)

lemma sample_loop_step:
  "0 < todo \<Longrightarrow>
   sample_loop pool n i todo rnd pos =
     pool ! (rnd pos mod (n - i))
       # sample_loop (pool[rnd pos mod (n - i) := pool ! (n - i - 1)]) n (i + 1) (todo - 1) rnd (pos + 1)"
  by (cases todo) (simp_all add: Let_def)

text \<open>
  The producer with every raw choice 0 and clock readings one microsecond apart, the
  first at 10:00:00.999990 on 2025-01-25: the first ten readings fall in one second, the
  last six in the next.
\<close>

lemma all_example:
  "all_stock_data (\<lambda>i. 0) (\<lambda>i. ((2025, 1, 25), 36000999990 + i)) =
     Inr [\<lparr>symbol = ''NVDA'', price = 128, produced_at = ''2025-01-25 10:00:00''\<rparr>,
          \<lparr>symbol = ''AAPL'', price = 200, produced_at = ''2025-01-25 10:00:00''\<rparr>,
          \<lparr>symbol = ''MSFT'', price = 399, produced_at = ''2025-01-25 10:00:00''\<rparr>,
          \<lparr>symbol = ''AMZN'', price = 210, produced_at = ''2025-01-25 10:00:00''\<rparr>,
          \<lparr>symbol = ''GOOGL'', price = 180, produced_at = ''2025-01-25 10:00:00''\<rparr>,
          \<lparr>symbol = ''META'', price = 582, produced_at = ''2025-01-25 10:00:00''\<rparr>,
          \<lparr>symbol = ''TSLA'', price = 366, produced_at = ''2025-01-25 10:00:00''\<rparr>,
          \<lparr>symbol = ''WMT'', price = 85, produced_at = ''2025-01-25 10:00:00''\<rparr>,
          \<lparr>symbol = ''JPM'', price = 238, produced_at = ''2025-01-25 10:00:00''\<rparr>,
          \<lparr>symbol = ''V'', price = 297, produced_at = ''2025-01-25 10:00:00''\<rparr>,
          \<lparr>symbol = ''ORCL'', price = 165, produced_at = ''2025-01-25 10:00:01''\<rparr>,
          \<lparr>symbol = ''MA'', price = 441, produced_at = ''2025-01-25 10:00:01''\<rparr>,
          \<lparr>symbol = ''XOM'', price = 98, produced_at = ''2025-01-25 10:00:01''\<rparr>,
          \<lparr>symbol = ''NFLX'', price = 880, produced_at = ''2025-01-25 10:00:01''\<rparr>,
          \<lparr>symbol = ''PG'', price = 147, produced_at = ''2025-01-25 10:00:01''\<rparr>,
          \<lparr>symbol = ''SAP'', price = 248, produced_at = ''2025-01-25 10:00:01''\<rparr>]"
  using bounds_values
  by (simp add: all_stock_data_def companies_price_def stock_data_loop_step
      randrange_def strftime_seconds_def strftime_date_def zfill_def str_int_def hour_def
      minute_def second_def decimal_digit decimal_more
      del: stock_data_loop.simps(2))


lemma create_example:
  "create_stock_market_data (\<lambda>i. 0) (\<lambda>i. ((2025, 1, 25), 36000999990 + i)) =
     Inr [\<lparr>symbol = ''NVDA'', price = 128, produced_at = ''2025-01-25 10:00:00''\<rparr>,
          \<lparr>symbol = ''SAP'', price = 248, produced_at = ''2025-01-25 10:00:01''\<rparr>,
          \<lparr>symbol = ''PG'', price = 147, produced_at = ''2025-01-25 10:00:01''\<rparr>,
          \<lparr>symbol = ''NFLX'', price = 880, produced_at = ''2025-01-25 10:00:01''\<rparr>,
          \<lparr>symbol = ''XOM'', price = 98, produced_at = ''2025-01-25 10:00:01''\<rparr>]"
  using all_example
  by (simp add: create_stock_market_data_def companies_price_def randrange_def
      sample_def sample_loop_step)

lemma close_price_loop_step:
  "close_price_loop rnd i d ((k, min_p, max_p) # rest) =
     (case randrange min_p max_p (rnd i) of
        Inl e \<Rightarrow> Inl e
      | Inr p \<Rightarrow>
          (case close_price_loop rnd (i + 1) d rest of
             Inl e \<Rightarrow> Inl e
           | Inr rows \<Rightarrow> Inr (\<lparr>company = k, date = d, close_price = p\<rparr> # rows)))"
  by (cases "randrange min_p max_p (rnd i)") simp_all

lemma add_days_step: "0 < n \<Longrightarrow> add_days d n = add_days (next_day d) (n - 1)"
  by (cases n) simp_all

lemma add_days_59: "add_days date_1 59 = (2022, 3, 1)"
  by (simp add: add_days_step date_1_def next_day_def days_in_month_def is_leap_def)

text \<open>The batch generator with raw choices 59, 60, 61, ...: the date is 59 days after 2022-01-01.\<close>

lemma generate_example:
  "generate_stock_batch_data
     \<lparr>g_rand = (\<lambda>i. 59 + i),
      g_environ = [''dest_bucket_path'' \<mapsto> ''s3://staging/''],
      today = ((2025, 1, 25), 36000999990),
      s3_to_csv_error = None\<rparr>
   = Inr \<lparr>csv_path = ''s3://staging/20250125100000.csv'',
          csv_rows =
         [\<lparr>company = ''NVDA'', date = ''2022-03-01'', close_price = 130\<rparr>,
          \<lparr>company = ''AAPL'', date = ''2022-03-01'', close_price = 216\<rparr>,
          \<lparr>company = ''MSFT'', date = ''2022-03-01'', close_price = 461\<rparr>,
          \<lparr>company = ''AMZN'', date = ''2022-03-01'', close_price = 226\<rparr>,
          \<lparr>company = ''GOOGL'', date = ''2022-03-01'', close_price = 204\<rparr>,
          \<lparr>company = ''META'', date = ''2022-03-01'', close_price = 647\<rparr>,
          \<lparr>company = ''TSLA'', date = ''2022-03-01'', close_price = 432\<rparr>,
          \<lparr>company = ''WMT'', date = ''2022-03-01'', close_price = 95\<rparr>,
          \<lparr>company = ''JPM'', date = ''2022-03-01'', close_price = 253\<rparr>,
          \<lparr>company = ''V'', date = ''2022-03-01'', close_price = 300\<rparr>,
          \<lparr>company = ''ORCL'', date = ''2022-03-01'', close_price = 198\<rparr>,
          \<lparr>company = ''MA'', date = ''2022-03-01'', close_price = 512\<rparr>,
          \<lparr>company = ''XOM'', date = ''2022-03-01'', close_price = 107\<rparr>,
          \<lparr>company = ''NFLX'', date = ''2022-03-01'', close_price = 953\<rparr>,
          \<lparr>company = ''PG'', date = ''2022-03-01'', close_price = 155\<rparr>,
          \<lparr>company = ''SAP'', date = ''2022-03-01'', close_price = 268\<rparr>]\<rparr>"
  using add_days_59
  by (simp add: generate_stock_batch_data_def bounds_values days_diff_integer_value
      close_price_loop_step randrange_def Let_def
      strftime_compact_def strftime_date_def zfill_def str_int_def hour_def
      minute_def second_def decimal_digit decimal_more
      del: close_price_loop.simps(2))

lemma produced_at_shared_within_a_second:
  assumes "\<forall>i < 16. strftime_seconds (clk i) = t"
  shows "\<exists>recs. create_stock_market_data rnd clk = Inr recs \<and> list_all (\<lambda>r. produced_at r = t) recs"
proof -
  obtain recs where recs: "create_stock_market_data rnd clk = Inr recs"
      "list_all (\<lambda>r. \<exists>i < 16. produced_at r = strftime_seconds (clk i)) recs"
    using create_stock_market_data_returns [of rnd clk] by blast
  from recs(2) assms have "list_all (\<lambda>r. produced_at r = t) recs"
    by (auto simp: list_all_iff)
  with recs(1) show ?thesis by blast
qed

subsection \<open>The price range\<close>

text \<open>
  The producer at choices that are not all equal, and the price of each generator as a
  function of the choice made for one symbol.
\<close>

lemma create_from_all:
  "\<exists>all_recs recs. all_stock_data rnd clk = Inr all_recs
       \<and> create_stock_market_data rnd clk = Inr recs \<and> set recs \<subseteq> set all_recs"
proof -
  obtain all_recs where a: "all_stock_data rnd clk = Inr all_recs"
      "length all_recs = length companies_price"
    using stock_data_loop_returns [of companies_price rnd clk 0]
    unfolding all_stock_data_def by auto
  have len: "length companies_price = 16" by (simp add: companies_price_def)
  obtain k where k: "randrange 5 16 (rnd 16) = Inr k"
    using randrange_returns [of 5 16] by auto
  then have kr: "5 \<le> k \<and> k < 16" by (rule randrange_range)
  then obtain chosen where c: "sample all_recs k rnd 17 = Inr chosen"
      "set chosen \<subseteq> set all_recs"
    using sample_returns [of k all_recs rnd 17] a(2) len by auto
  have "create_stock_market_data rnd clk = Inr chosen"
    by (simp add: create_stock_market_data_def a(1) len k c(1))
  with a(1) c(2) show ?thesis by blast
qed

lemma all_example_2:
  "all_stock_data (\<lambda>i. 7 * i + 3) (\<lambda>i. ((2025, 1, 25), 36000999990 + i)) =
     Inr [\<lparr>symbol = ''NVDA'', price = 131, produced_at = ''2025-01-25 10:00:00''\<rparr>,
          \<lparr>symbol = ''AAPL'', price = 210, produced_at = ''2025-01-25 10:00:00''\<rparr>,
          \<lparr>symbol = ''MSFT'', price = 416, produced_at = ''2025-01-25 10:00:00''\<rparr>,
          \<lparr>symbol = ''AMZN'', price = 234, produced_at = ''2025-01-25 10:00:00''\<rparr>,
          \<lparr>symbol = ''GOOGL'', price = 211, produced_at = ''2025-01-25 10:00:00''\<rparr>,
          \<lparr>symbol = ''META'', price = 620, produced_at = ''2025-01-25 10:00:00''\<rparr>,
          \<lparr>symbol = ''TSLA'', price = 411, produced_at = ''2025-01-25 10:00:00''\<rparr>,
          \<lparr>symbol = ''WMT'', price = 99, produced_at = ''2025-01-25 10:00:00''\<rparr>,
          \<lparr>symbol = ''JPM'', price = 244, produced_at = ''2025-01-25 10:00:00''\<rparr>,
          \<lparr>symbol = ''V'', price = 297, produced_at = ''2025-01-25 10:00:00''\<rparr>,
          \<lparr>symbol = ''ORCL'', price = 201, produced_at = ''2025-01-25 10:00:01''\<rparr>,
          \<lparr>symbol = ''MA'', price = 521, produced_at = ''2025-01-25 10:00:01''\<rparr>,
          \<lparr>symbol = ''XOM'', price = 101, produced_at = ''2025-01-25 10:00:01''\<rparr>,
          \<lparr>symbol = ''NFLX'', price = 974, produced_at = ''2025-01-25 10:00:01''\<rparr>,
          \<lparr>symbol = ''PG'', price = 149, produced_at = ''2025-01-25 10:00:01''\<rparr>,
          \<lparr>symbol = ''SAP'', price = 301, produced_at = ''2025-01-25 10:00:01''\<rparr>]"
  using bounds_values
  by (simp add: all_stock_data_def companies_price_def stock_data_loop_step
      randrange_def strftime_seconds_def strftime_date_def zfill_def str_int_def hour_def
      minute_def second_def decimal_digit decimal_more
      del: stock_data_loop.simps(2))

lemma create_example_2:
  "create_stock_market_data (\<lambda>i. 7 * i + 3) (\<lambda>i. ((2025, 1, 25), 36000999990 + i)) =
     Inr [\<lparr>symbol = ''ORCL'', price = 201, produced_at = ''2025-01-25 10:00:01''\<rparr>,
          \<lparr>symbol = ''V'', price = 297, produced_at = ''2025-01-25 10:00:00''\<rparr>,
          \<lparr>symbol = ''SAP'', price = 301, produced_at = ''2025-01-25 10:00:01''\<rparr>,
          \<lparr>symbol = ''NVDA'', price = 131, produced_at = ''2025-01-25 10:00:00''\<rparr>,
          \<lparr>symbol = ''TSLA'', price = 411, produced_at = ''2025-01-25 10:00:00''\<rparr>,
          \<lparr>symbol = ''AMZN'', price = 234, produced_at = ''2025-01-25 10:00:00''\<rparr>,
          \<lparr>symbol = ''GOOGL'', price = 211, produced_at = ''2025-01-25 10:00:00''\<rparr>,
          \<lparr>symbol = ''XOM'', price = 101, produced_at = ''2025-01-25 10:00:01''\<rparr>,
          \<lparr>symbol = ''MSFT'', price = 416, produced_at = ''2025-01-25 10:00:00''\<rparr>,
          \<lparr>symbol = ''NFLX'', price = 974, produced_at = ''2025-01-25 10:00:01''\<rparr>]"
  using all_example_2
  by (simp add: create_stock_market_data_def companies_price_def randrange_def
      sample_def sample_loop_step)

lemma producer_choice_per_price:
  assumes "j < length companies_price" and "price_in_range (snd (companies_price ! j)) p"
  shows "\<exists>!d. d < nat (\<lfloor>11 / 10 * real_of_int (snd (companies_price ! j))\<rfloor>
                       - \<lfloor>9 / 10 * real_of_int (snd (companies_price ! j))\<rfloor>)
              \<and> (\<exists>recs. all_stock_data (rnd(j := d)) clk = Inr recs
                     \<and> symbol (recs ! j) = fst (companies_price ! j) \<and> price (recs ! j) = p)"
  using one_choice_per_price [OF assms]
  by (simp only: all_stock_data_price_iff [OF assms(1)])

lemma generator_choice_per_price:
  assumes "g_environ w ''dest_bucket_path'' = Some dest" and "s3_to_csv_error w = None"
      and "j < length companies_price" and "price_in_range (snd (companies_price ! j)) p"
  shows "\<exists>!d. d < nat (\<lfloor>11 / 10 * real_of_int (snd (companies_price ! j))\<rfloor>
                       - \<lfloor>9 / 10 * real_of_int (snd (companies_price ! j))\<rfloor>)
              \<and> (\<exists>out. generate_stock_batch_data (w\<lparr>g_rand := (g_rand w)(Suc j := d)\<rparr>) = Inr out
                     \<and> company (csv_rows out ! j) = fst (companies_price ! j)
                     \<and> close_price (csv_rows out ! j) = p)"
  using one_choice_per_price [OF assms(3,4)]
  by (simp only: generate_price_iff [OF assms(1-3)])

text \<open>
  C9. Generator price range: for every symbol with reference price \<open>ref\<close> in the fixed
  symbol table, every price \<open>p\<close> the streaming producer and the batch generator generate
  satisfies \<open>floor(0.9 * ref) \<le> p < floor(1.1 * ref)\<close>; both generators return (the
  batch generator when its destination is configured and its write succeeds), the batch
  generator with one row for each symbol of the table. The bounds computed in double
  precision are these floors. The price is drawn uniformly from that half-open interval:
  the records the producer returns are among the sixteen it generates, and in both
  generators the price of a symbol is decided by the one random choice made for it, each
  price of the interval being generated for exactly one of the equally likely values of
  that choice below the interval's length (and \<open>randrange\<close> reaches each price of the
  interval from exactly one such value).
\<close>

theorem generated_prices_in_range:
  assumes "g_environ w ''dest_bucket_path'' = Some dest" and "s3_to_csv_error w = None"
  shows "(\<exists>recs. create_stock_market_data rnd clk = Inr recs \<and> list_all tick_in_range recs)
       \<and> (\<exists>out. generate_stock_batch_data w = Inr out
                \<and> map company (csv_rows out) = map fst companies_price
                \<and> list_all row_in_range (csv_rows out))
       \<and> list_all (\<lambda>(k, ref). min_price ref = \<lfloor>9 / 10 * real_of_int ref\<rfloor>
                             \<and> max_price ref = \<lfloor>11 / 10 * real_of_int ref\<rfloor>) companies_price
       \<and> (\<forall>(k, ref) \<in> set companies_price. \<forall>p. price_in_range ref p \<longrightarrow>
             (\<exists>!d. d < nat (max_price ref - min_price ref)
                   \<and> randrange (min_price ref) (max_price ref) d = Inr p))
       \<and> (\<exists>all_recs recs. all_stock_data rnd clk = Inr all_recs
                \<and> create_stock_market_data rnd clk = Inr recs \<and> set recs \<subseteq> set all_recs)
       \<and> (\<forall>j < length companies_price. \<forall>p. price_in_range (snd (companies_price ! j)) p \<longrightarrow>
             (\<exists>!d. d < nat (\<lfloor>11 / 10 * real_of_int (snd (companies_price ! j))\<rfloor>
                              - \<lfloor>9 / 10 * real_of_int (snd (companies_price ! j))\<rfloor>)
                   \<and> (\<exists>recs. all_stock_data (rnd(j := d)) clk = Inr recs
                          \<and> symbol (recs ! j) = fst (companies_price ! j)
                          \<and> price (recs ! j) = p)))
       \<and> (\<forall>j < length companies_price. \<forall>p. price_in_range (snd (companies_price ! j)) p \<longrightarrow>
             (\<exists>!d. d < nat (\<lfloor>11 / 10 * real_of_int (snd (companies_price ! j))\<rfloor>
                              - \<lfloor>9 / 10 * real_of_int (snd (companies_price ! j))\<rfloor>)
                   \<and> (\<exists>out. generate_stock_batch_data
                                  (w\<lparr>g_rand := (g_rand w)(Suc j := d)\<rparr>) = Inr out
                          \<and> company (csv_rows out ! j) = fst (companies_price ! j)
                          \<and> close_price (csv_rows out ! j) = p)))"
proof (intro conjI)
  show "\<exists>recs. create_stock_market_data rnd clk = Inr recs \<and> list_all tick_in_range recs"
    using create_stock_market_data_returns [of rnd clk] by blast
  show "\<exists>out. generate_stock_batch_data w = Inr out
                \<and> map company (csv_rows out) = map fst companies_price
                \<and> list_all row_in_range (csv_rows out)"
    using generate_stock_batch_data_returns [OF assms] by blast
  show "list_all (\<lambda>(k, ref). min_price ref = \<lfloor>9 / 10 * real_of_int ref\<rfloor>
                             \<and> max_price ref = \<lfloor>11 / 10 * real_of_int ref\<rfloor>) companies_price"
    by (rule bounds_are_floors)
  show "\<forall>(k, ref) \<in> set companies_price. \<forall>p. price_in_range ref p \<longrightarrow>
             (\<exists>!d. d < nat (max_price ref - min_price ref)
                   \<and> randrange (min_price ref) (max_price ref) d = Inr p)"
  proof (intro ballI, clarify)
    fix k ref p
    assume mem: "(k, ref) \<in> set companies_price" and "price_in_range ref p"
    then have "min_price ref \<le> p" "p < max_price ref"
      using bounds_of_entry [OF mem] by (simp_all add: price_in_range_iff)
    then show "\<exists>!d. d < nat (max_price ref - min_price ref)
                   \<and> randrange (min_price ref) (max_price ref) d = Inr p"
      by (rule randrange_one_draw_per_value)
  qed
  show "\<exists>all_recs recs. all_stock_data rnd clk = Inr all_recs
                \<and> create_stock_market_data rnd clk = Inr recs \<and> set recs \<subseteq> set all_recs"
    by (rule create_from_all)
  show "\<forall>j < length companies_price. \<forall>p. price_in_range (snd (companies_price ! j)) p \<longrightarrow>
             (\<exists>!d. d < nat (\<lfloor>11 / 10 * real_of_int (snd (companies_price ! j))\<rfloor>
                              - \<lfloor>9 / 10 * real_of_int (snd (companies_price ! j))\<rfloor>)
                   \<and> (\<exists>recs. all_stock_data (rnd(j := d)) clk = Inr recs
                          \<and> symbol (recs ! j) = fst (companies_price ! j)
                          \<and> price (recs ! j) = p))"
    using producer_choice_per_price by blast
  show "\<forall>j < length companies_price. \<forall>p. price_in_range (snd (companies_price ! j)) p \<longrightarrow>
             (\<exists>!d. d < nat (\<lfloor>11 / 10 * real_of_int (snd (companies_price ! j))\<rfloor>
                              - \<lfloor>9 / 10 * real_of_int (snd (companies_price ! j))\<rfloor>)
                   \<and> (\<exists>out. generate_stock_batch_data
                                  (w\<lparr>g_rand := (g_rand w)(Suc j := d)\<rparr>) = Inr out
                          \<and> company (csv_rows out ! j) = fst (companies_price ! j)
                          \<and> close_price (csv_rows out ! j) = p))"
    using generator_choice_per_price [OF assms] by blast
qed

text \<open>
  The theorem at a configured world and choices that differ from symbol to symbol: the
  batch generator's sixteen prices and the producer's ten sampled prices, all in range;
  and the price 130 of NVDA (reference 143, range 128 to 156) as the result of the value 2
  of the choice made for NVDA, in \<open>randrange\<close> and in the producer.
\<close>

theorem generated_prices_in_range_witness:
  "g_environ \<lparr>g_rand = (\<lambda>i. 59 + i),
               g_environ = [''dest_bucket_path'' \<mapsto> ''s3://staging/''],
               today = ((2025, 1, 25), 36000999990),
               s3_to_csv_error = None\<rparr> ''dest_bucket_path'' = Some ''s3://staging/''
   \<and> s3_to_csv_error \<lparr>g_rand = (\<lambda>i. 59 + i),
               g_environ = [''dest_bucket_path'' \<mapsto> ''s3://staging/''],
               today = ((2025, 1, 25), 36000999990),
               s3_to_csv_error = None\<rparr> = None
   \<and> (\<exists>out. generate_stock_batch_data
               \<lparr>g_rand = (\<lambda>i. 59 + i),
               g_environ = [''dest_bucket_path'' \<mapsto> ''s3://staging/''],
               today = ((2025, 1, 25), 36000999990),
               s3_to_csv_error = None\<rparr> = Inr out
            \<and> map close_price (csv_rows out)
                = [130, 216, 461, 226, 204, 647, 432, 95, 253, 300, 198, 512, 107, 953, 155, 268]
            \<and> list_all row_in_range (csv_rows out))
   \<and> (\<exists>recs. create_stock_market_data (\<lambda>i. 7 * i + 3)
                    (\<lambda>i. ((2025, 1, 25), 36000999990 + i)) = Inr recs
            \<and> map price recs = [201, 297, 301, 131, 411, 234, 211, 101, 416, 974]
            \<and> list_all tick_in_range recs)
   \<and> price_in_range 143 130
   \<and> randrange (min_price 143) (max_price 143) 2 = Inr 130
   \<and> (\<exists>recs. all_stock_data ((\<lambda>i. 7 * i + 3)(0 := 2))
                    (\<lambda>i. ((2025, 1, 25), 36000999990 + i)) = Inr recs
            \<and> symbol (recs ! 0) = ''NVDA'' \<and> price (recs ! 0) = 130)"
proof -
  let ?w = "\<lparr>g_rand = (\<lambda>i. 59 + i),
               g_environ = [''dest_bucket_path'' \<mapsto> ''s3://staging/''],
               today = ((2025, 1, 25), 36000999990),
               s3_to_csv_error = None\<rparr>"
  let ?rnd = "\<lambda>i::nat. 7 * i + (3::nat)"
  let ?clk = "\<lambda>i::nat. ((2025::int, 1::nat, 25::nat), 36000999990 + i)"
  have h1: "g_environ ?w ''dest_bucket_path'' = Some ''s3://staging/''" by simp
  have h2: "s3_to_csv_error ?w = None" by simp
  note t = generated_prices_in_range [OF h1 h2, of ?rnd ?clk]
  from t [THEN conjunct2, THEN conjunct1] obtain out where
      out: "generate_stock_batch_data ?w = Inr out" "list_all row_in_range (csv_rows out)"
    by blast
  from t [THEN conjunct1] obtain recs where
      recs: "create_stock_market_data ?rnd ?clk = Inr recs" "list_all tick_in_range recs"
    by blast
  have m1: "map close_price (csv_rows out)
          = [130, 216, 461, 226, 204, 647, 432, 95, 253, 300, 198, 512, 107, 953, 155, 268]"
    using out(1) generate_example by auto
  have m2: "map price recs = [201, 297, 301, 131, 411, 234, 211, 101, 416, 974]"
    using recs(1) create_example_2 by auto
  have a: "\<exists>out. generate_stock_batch_data ?w = Inr out
            \<and> map close_price (csv_rows out)
                = [130, 216, 461, 226, 204, 647, 432, 95, 253, 300, 198, 512, 107, 953, 155, 268]
            \<and> list_all row_in_range (csv_rows out)"
  proof (intro exI conjI)
    show "generate_stock_batch_data ?w = Inr out" by (fact out(1))
    show "map close_price (csv_rows out)
          = [130, 216, 461, 226, 204, 647, 432, 95, 253, 300, 198, 512, 107, 953, 155, 268]"
      by (fact m1)
    show "list_all row_in_range (csv_rows out)" by (fact out(2))
  qed
  have b: "\<exists>recs. create_stock_market_data ?rnd ?clk = Inr recs
            \<and> map price recs = [201, 297, 301, 131, 411, 234, 211, 101, 416, 974]
            \<and> list_all tick_in_range recs"
  proof (intro exI conjI)
    show "create_stock_market_data ?rnd ?clk = Inr recs" by (fact recs(1))
    show "map price recs = [201, 297, 301, 131, 411, 234, 211, 101, 416, 974]" by (fact m2)
    show "list_all tick_in_range recs" by (fact recs(2))
  qed
  have c: "price_in_range 143 130" by (simp add: price_in_range_iff)
  have d: "randrange (min_price 143) (max_price 143) 2 = Inr 130"
    using bounds_values by (simp add: companies_price_def randrange_def)
  have j0: "0 < length companies_price" by (simp add: companies_price_def)
  have e0: "companies_price ! 0 = (''NVDA'', 143)" by (simp add: companies_price_def)
  have e: "\<exists>recs. all_stock_data (?rnd(0 := 2)) ?clk = Inr recs
            \<and> symbol (recs ! 0) = ''NVDA'' \<and> price (recs ! 0) = 130"
    using all_stock_data_price_iff [OF j0, of ?rnd 2 ?clk 130] d by (simp add: e0)
  from h1 h2 a b c d e show ?thesis by (intro conjI)
qed

subsection \<open>The generation timestamp\<close>

text \<open>
  C8. Shared generation timestamp. The batch generator's rows share one date
  (\<open>generate_stock_batch_data_returns\<close>), and the producer's records share one
  \<open>produced_at\<close> whenever the sixteen clock readings of the loop fall in one second
  (\<open>produced_at_shared_within_a_second\<close>). But the producer reads the clock once for each
  record (line 156 is inside the loop), so when a second ends while the loop runs, the
  records of one call carry two different \<open>produced_at\<close> values: at the choices and clock
  readings above the call returns one record of 10:00:00 and four of 10:00:01.
\<close>

theorem produced_at_not_shared:
  "create_stock_market_data (\<lambda>i. 0) (\<lambda>i. ((2025, 1, 25), 36000999990 + i)) =
     Inr [\<lparr>symbol = ''NVDA'', price = 128, produced_at = ''2025-01-25 10:00:00''\<rparr>,
          \<lparr>symbol = ''SAP'', price = 248, produced_at = ''2025-01-25 10:00:01''\<rparr>,
          \<lparr>symbol = ''PG'', price = 147, produced_at = ''2025-01-25 10:00:01''\<rparr>,
          \<lparr>symbol = ''NFLX'', price = 880, produced_at = ''2025-01-25 10:00:01''\<rparr>,
          \<lparr>symbol = ''XOM'', price = 98, produced_at = ''2025-01-25 10:00:01''\<rparr>]
   \<and> \<not> (\<exists>t. list_all (\<lambda>r. produced_at r = t)
           [\<lparr>symbol = ''NVDA'', price = 128, produced_at = ''2025-01-25 10:00:00''\<rparr>,
            \<lparr>symbol = ''SAP'', price = 248, produced_at = ''2025-01-25 10:00:01''\<rparr>,
            \<lparr>symbol = ''PG'', price = 147, produced_at = ''2025-01-25 10:00:01''\<rparr>,
            \<lparr>symbol = ''NFLX'', price = (880::int), produced_at = ''2025-01-25 10:00:01''\<rparr>,
            \<lparr>symbol = ''XOM'', price = 98, produced_at = ''2025-01-25 10:00:01''\<rparr>])"
  using create_example by auto

subsection \<open>The publisher's argument\<close>

text \<open>
  C10. The stream publisher's behaviour is independent of its \<open>records\<close> parameter: for
  any two values of the argument (of any types), with the same random choices, clock and
  stream, \<open>write_records_to_stream\<close> publishes the same data and returns the same counts,
  or raises the same error; the argument is overwritten by a fresh call of
  \<open>create_stock_market_data\<close> before it is used.
\<close>

theorem write_records_ignores_argument:
  "write_records_to_stream (records1 :: 'a) event w = write_records_to_stream (records2 :: 'b) event w"
  by (simp add: write_records_to_stream_def)

section \<open>Properties of the returned summaries\<close>

lemma summary_keys:
  "map fst (summary status n us) = [''status'', ''records_appended'', ''duration_seconds'']"
  by (simp add: summary_def)

lemma has_all_fields_summary:
  "status = ''success'' \<or> status = ''success with warning'' \<Longrightarrow> has_all_fields (summary status n us)"
  by (auto simp: has_all_fields_def summary_def)

lemma batch_response_has_all_fields:
  assumes "process_batch_files_lambda w = Inr out"
  shows "has_all_fields (response out)"
  using assms
  by (auto simp: process_batch_files_lambda_def Let_def has_all_fields_summary
      split: list.splits option.splits sum.splits prod.splits if_splits)

lemma stream_response_has_all_fields:
  assumes "returned (process_stock_stream_data w) = Inr d" and "messages w \<noteq> []"
  shows "has_all_fields d"
  using assms
  by (auto simp: process_stock_stream_data_def raised_def Let_def has_all_fields_summary
      split: list.splits option.splits sum.splits prod.splits if_splits)

lemma overwritten_is_latest_view:
  assumes "overwritten (process_stock_stream_data w) = Some view"
  shows "view = map (to_latest_prices (now_etl w))
                   (latest_prices_query (history_table w @ appended (process_stock_stream_data w)))"
  using assms
  by (auto simp: process_stock_stream_data_def raised_def Let_def
      split: list.splits option.splits sum.splits prod.splits if_splits)

text \<open>
  C7. Return-value structure. Every dictionary the daily-batch handler returns, and every
  dictionary the streaming handler returns for an event with messages, has the three
  fields (\<open>batch_response_has_all_fields\<close>, \<open>stream_response_has_all_fields\<close>). The
  result returned when the queue delivers no messages does not: for an event without
  messages the streaming handler returns a dictionary with the single entry \<open>status\<close>,
  without \<open>records_appended\<close> and without \<open>duration_seconds\<close>.
\<close>

theorem no_messages_result:
  "process_stock_stream_data
     \<lparr>sw_environ = [''dest_bucket_path_overwrite'' \<mapsto> ''s3://lake/latest_prices/'',
                    ''dest_bucket_path'' \<mapsto> ''s3://lake/stream_prices_history/''],
      athena_test_error = None,
      messages = [],
      s3_read_json = (\<lambda>paths. Inr []),
      history_table = [],
      append_error = None,
      athena_query_error = None,
      overwrite_error = None,
      now_etl = ((2025, 1, 25), 0),
      sw_elapsed_us = 1200000\<rparr>
   = \<lparr>returned = Inr [(''status'', PyStr ''no_messages'')], appended = [], overwritten = None\<rparr>
   \<and> \<not> has_all_fields [(''status'', PyStr ''no_messages'')]
   \<and> map_of [(''status'', PyStr ''no_messages'')] ''records_appended'' = None
   \<and> map_of [(''status'', PyStr ''no_messages'')] ''duration_seconds'' = None"
  by (simp add: process_stock_stream_data_def has_all_fields_def)

end
